theory Spec2Isabelle
  imports Main
begin

section \<open>JavaScript values\<close>

text \<open>
  The program is JavaScript. A value that reaches it from outside (a JSON body, a query
  string, a decoded token payload) is a \<open>jsval\<close>. Numbers are the integer-valued ones;
  a string is the list of its code units, each below 256 in every literal of this
  program, so one \<open>char\<close> stands for one code unit; an object is the list of its own
  properties, in the order \<open>for ... in\<close> visits them.
\<close>

datatype jsval =
    JUndefined
  | JNull
  | JBool bool
  | JNum int
  | JStr string
  | JArr "jsval list"
  | JObj "(string \<times> jsval) list"

text \<open>The truth value JavaScript gives a value in \<open>!x\<close>, \<open>x || y\<close> and \<open>if (x)\<close>.\<close>

fun truthy :: "jsval \<Rightarrow> bool" where
  "truthy JUndefined = False"
| "truthy JNull = False"
| "truthy (JBool b) = b"
| "truthy (JNum n) = (n \<noteq> 0)"
| "truthy (JStr s) = (s \<noteq> [])"
| "truthy (JArr xs) = True"
| "truthy (JObj kvs) = True"

definition js_or :: "jsval \<Rightarrow> jsval \<Rightarrow> jsval" where
  "js_or a b = (if truthy a then a else b)"

text \<open>Reading a property of an object literal; a missing key reads as \<open>undefined\<close>.\<close>

definition field :: "(string \<times> jsval) list \<Rightarrow> string \<Rightarrow> jsval" where
  "field kvs k = (case map_of kvs k of None \<Rightarrow> JUndefined | Some v \<Rightarrow> v)"

text \<open>
  \<open>x.k\<close> for a truthy \<open>x\<close>: an object answers with its field, every other truthy
  value has no such own property (the keys read in this program are \<open>id\<close> only).
\<close>

definition get_prop :: "jsval \<Rightarrow> string \<Rightarrow> jsval" where
  "get_prop v k = (case v of JObj kvs \<Rightarrow> field kvs k | _ \<Rightarrow> JUndefined)"

function show_nat :: "nat \<Rightarrow> string" where
  "show_nat n =
     (if n < 10 then [''0123456789'' ! n]
      else show_nat (n div 10) @ [''0123456789'' ! (n mod 10)])"
  by pat_completeness auto
termination
  by (relation "measure id") auto

definition show_int :: "int \<Rightarrow> string" where
  "show_int i = (if i < 0 then CHR ''-'' # show_nat (nat (- i)) else show_nat (nat i))"

fun join_with :: "string \<Rightarrow> string list \<Rightarrow> string" where
  "join_with sep [] = []"
| "join_with sep [x] = x"
| "join_with sep (x # y # ys) = x @ sep @ join_with sep (y # ys)"

text \<open>The accented letters of the program's messages, as code units.\<close>

definition aacute :: char where "aacute = CHR 0xE1"
definition iacute :: char where "iacute = CHR 0xED"
definition oacute :: char where "oacute = CHR 0xF3"
definition uacute :: char where "uacute = CHR 0xFA"
definition ntilde :: char where "ntilde = CHR 0xF1"


section \<open>The world outside the repository\<close>

text \<open>
  What the program calls but does not define is a parameter of the model:
  \<^item> \<open>jwt_verify\<close>: \<open>jwt.verify(token, process.env.JWT_SECRET)\<close>, \<open>None\<close> when it throws;
  \<^item> \<open>clock\<close>: \<open>new Date().toISOString()\<close>, and \<open>clock_ms\<close> the same instant as a number;
  \<^item> \<open>big_number_text\<close>: the exponent form JavaScript prints for an integer of magnitude
    1e21 and above (\<open>String(1e21)\<close> is \<open>'1e+21'\<close>);
  \<^item> \<open>sql_int\<close>: the integer the database engine reads in a bound value that is not
    a number (the text \<open>'5'\<close> compared with, or stored in, an INTEGER column);
  \<^item> \<open>other_where_int\<close>, \<open>other_where_text\<close>: how the ORM and the engine match an INTEGER
    and a TEXT column against a bound value that is a boolean, an array or an object
    (and, for TEXT, a number); \<open>None\<close> when the query is rejected;
  \<^item> \<open>user_values\<close>, \<open>task_values\<close>: the validators of the User and Task models and the
    conversion of the accepted values to column values (for a user: name, email and
    the bcrypt hash of the password; for a task: title, description, status,
    priority, due date), or the validation messages.
\<close>

record env =
  jwt_verify :: "string \<Rightarrow> jsval option"
  clock :: string
  clock_ms :: nat
  big_number_text :: "int \<Rightarrow> string"
  sql_int :: "jsval \<Rightarrow> int option"
  other_where_int :: "jsval \<Rightarrow> (int option \<Rightarrow> bool) option"
  other_where_text :: "jsval \<Rightarrow> (string \<Rightarrow> bool) option"
  user_values :: "jsval \<Rightarrow> jsval \<Rightarrow> jsval \<Rightarrow> string list + (string \<times> string \<times> string)"
  task_values ::
    "jsval \<Rightarrow> jsval \<Rightarrow> jsval \<Rightarrow> jsval \<Rightarrow> jsval
       \<Rightarrow> string list + (string \<times> string option \<times> string \<times> string \<times> string option)"

text \<open>
  \<open>String(x)\<close>, which is also what a template literal and \<open>RegExp.test\<close> apply to
  their argument. A number below 1e21 in magnitude prints its digits, a larger one
  prints in exponent form; an array joins its elements with a comma, \<open>null\<close> and
  \<open>undefined\<close> elements as the empty string.
\<close>

fun String :: "env \<Rightarrow> jsval \<Rightarrow> string" where
  "String e JUndefined = ''undefined''"
| "String e JNull = ''null''"
| "String e (JBool b) = (if b then ''true'' else ''false'')"
| "String e (JNum n) =
     (if abs n < 1000000000000000000000 then show_int n else big_number_text e n)"
| "String e (JStr s) = s"
| "String e (JArr xs) =
     join_with '','' (map (\<lambda>x. if x = JNull \<or> x = JUndefined then [] else String e x) xs)"
| "String e (JObj kvs) = ''[object Object]''"


section \<open>Response Formatter (utils/response.js)\<close>

definition getDefaultMessage :: "int \<Rightarrow> string" where
  "getDefaultMessage statusCode =
     (if statusCode = 200 then ''OK''
      else if statusCode = 201 then ''Recurso creado correctamente''
      else if statusCode = 400 then ''Solicitud incorrecta''
      else if statusCode = 401 then ''No autorizado''
      else if statusCode = 403 then ''Acceso prohibido''
      else if statusCode = 404 then ''Recurso no encontrado''
      else if statusCode = 500 then ''Error interno del servidor''
      else ''Operaci'' @ [oacute] @ ''n completada'')"

record envelope =
  success :: bool
  code :: int
  message :: string
  data :: jsval
  timestamp :: string

text \<open>
  The object \<open>response\<close> that \<open>formatResponse\<close> builds first. \<open>message\<close> is a string
  or absent (\<open>None\<close>: \<open>undefined\<close>, for which the default parameter gives \<open>null\<close>);
  \<open>message || getDefaultMessage(statusCode)\<close> also replaces an empty string.
\<close>

definition response_object :: "env \<Rightarrow> int \<Rightarrow> jsval \<Rightarrow> string option \<Rightarrow> envelope" where
  "response_object e statusCode dat msg =
     \<lparr> success = (statusCode \<ge> 200 \<and> statusCode < 300),
       code = statusCode,
       message = (case msg of None \<Rightarrow> getDefaultMessage statusCode
                  | Some m \<Rightarrow> if m \<noteq> [] then m else getDefaultMessage statusCode),
       data = js_or dat JNull,
       timestamp = clock e \<rparr>"

text \<open>
  \<open>generateXML\<close>: \<open>processObject\<close> turns the object into the argument of the \<open>xml\<close>
  library, a list of one-key objects or a text. The library call itself is outside
  the repository; the XML body is kept as the value handed to it, under the root
  element \<open>response\<close>.
\<close>

datatype xmlin = XText string | XElems "(string \<times> xmlin) list"

fun processObject :: "env \<Rightarrow> jsval \<Rightarrow> xmlin" where
  "processObject e JUndefined = XText []"
| "processObject e JNull = XText []"
| "processObject e (JArr items) =
     XElems (map (\<lambda>item. (''item'',
        case item of JArr _ \<Rightarrow> processObject e item | JObj _ \<Rightarrow> processObject e item
        | _ \<Rightarrow> XText (String e item))) items)"
| "processObject e (JObj kvs) =
     XElems (map (\<lambda>(key, v). (key,
        case v of JArr _ \<Rightarrow> processObject e v | JObj _ \<Rightarrow> processObject e v
        | _ \<Rightarrow> XText (String e v))) kvs)"
| "processObject e v = XText (String e v)"

definition envelope_object :: "envelope \<Rightarrow> jsval" where
  "envelope_object r =
     JObj [(''success'', JBool (success r)), (''code'', JNum (code r)),
           (''message'', JStr (message r)), (''data'', data r),
           (''timestamp'', JStr (timestamp r))]"

definition generateXML :: "env \<Rightarrow> envelope \<Rightarrow> (string \<times> xmlin)" where
  "generateXML e r = (''response'', processObject e (envelope_object r))"

datatype body = JsonBody envelope | XmlBody "string \<times> xmlin"

record response =
  res_status :: int
  res_contentType :: string
  res_body :: body

text \<open>
  \<open>formatResponse(res, statusCode, data, message, format)\<close>: the status line, the
  content type and the body it leaves on \<open>res\<close>.
\<close>

definition formatResponse ::
  "env \<Rightarrow> int \<Rightarrow> jsval \<Rightarrow> string option \<Rightarrow> jsval \<Rightarrow> response" where
  "formatResponse e statusCode dat msg format =
     (let r = response_object e statusCode dat msg in
      if format = JStr ''xml''
      then \<lparr> res_status = statusCode, res_contentType = ''application/xml'',
             res_body = XmlBody (generateXML e r) \<rparr>
      else \<lparr> res_status = statusCode, res_contentType = ''application/json'',
             res_body = JsonBody r \<rparr>)"


section \<open>Storage (models/, config/database.js), through the Sequelize API\<close>

text \<open>
  The rows of the three tables. An ENUM column is TEXT under the sqlite dialect that
  \<open>config/database.js\<close> selects, so \<open>role\<close>, \<open>status\<close> and \<open>priority\<close> are strings,
  compared as the program compares them. \<open>createdAt\<close> is the instant of creation.
\<close>

record user_row =
  u_id :: int
  u_name :: string
  u_email :: string
  u_password :: string
  u_role :: string
  u_active :: bool
  u_createdAt :: nat

record project_row =
  p_id :: int
  p_name :: string
  p_description :: "string option"
  p_status :: string
  p_startDate :: string
  p_endDate :: "string option"
  p_createdBy :: int
  p_createdAt :: nat

record task_row =
  t_id :: int
  t_title :: string
  t_description :: "string option"
  t_status :: string
  t_priority :: string
  t_dueDate :: "string option"
  t_projectId :: int
  t_assignedTo :: "int option"
  t_createdAt :: nat

text \<open>
  The database: its tables in row order, whether it can be reached (a query on an
  unreachable database throws), and for the two tables the program inserts into here
  the largest key the table ever held (SQLite's \<open>sqlite_sequence\<close>: an AUTOINCREMENT
  key is never given twice, also after its row is deleted).
\<close>

record db =
  users :: "user_row list"
  projects :: "project_row list"
  tasks :: "task_row list"
  online :: bool
  user_seq :: int
  task_seq :: int

text \<open>A thrown error: its \<open>name\<close> and the messages of its \<open>errors\<close>.\<close>

datatype error = Error string "string list"

definition error_name :: "error \<Rightarrow> string" where
  "error_name x = (case x of Error n ms \<Rightarrow> n)"

definition error_messages :: "error \<Rightarrow> string list" where
  "error_messages x = (case x of Error n ms \<Rightarrow> ms)"

definition unreachable :: error where
  "unreachable = Error ''SequelizeConnectionError'' []"

definition pk_of :: "env \<Rightarrow> jsval \<Rightarrow> int option" where
  "pk_of e v = (case v of JNum n \<Rightarrow> Some n | _ \<Rightarrow> sql_int e v)"

text \<open>
  \<open>Model.findByPk(param)\<close> of Sequelize: \<open>null\<close> and \<open>undefined\<close> answer \<open>null\<close> without a
  query, a number or a string is looked up by primary key, anything else throws.
\<close>

definition findByPk ::
  "env \<Rightarrow> db \<Rightarrow> ('r \<Rightarrow> int) \<Rightarrow> 'r list \<Rightarrow> jsval \<Rightarrow> error + 'r option" where
  "findByPk e d key rows param =
     (let looked_up =
        (if \<not> online d then Inl unreachable
         else Inr (case pk_of e param of None \<Rightarrow> None
                   | Some n \<Rightarrow> find (\<lambda>r. key r = n) rows))
      in case param of
           JUndefined \<Rightarrow> Inr None
         | JNull \<Rightarrow> Inr None
         | JNum n \<Rightarrow> looked_up
         | JStr s \<Rightarrow> looked_up
         | _ \<Rightarrow> Inl (Error ''Error'' [''Argument passed to findByPk is invalid'']))"

definition User_findByPk :: "env \<Rightarrow> db \<Rightarrow> jsval \<Rightarrow> error + user_row option" where
  "User_findByPk e d param = findByPk e d u_id (users d) param"

definition Project_findByPk :: "env \<Rightarrow> db \<Rightarrow> jsval \<Rightarrow> error + project_row option" where
  "Project_findByPk e d param = findByPk e d p_id (projects d) param"

text \<open>
  A \<open>where\<close> object: its keys in order, each with a value (\<open>Eq\<close>) or with
  \<open>{[Op.like]: pattern}\<close> (\<open>Like\<close>). Sequelize (version 5 and later, the versions that
  have \<open>findByPk\<close>) throws on a key whose value is \<open>undefined\<close>; \<open>null\<close> is \<open>IS NULL\<close>.
\<close>

datatype cond = Eq jsval | Like string

definition where_int :: "env \<Rightarrow> jsval \<Rightarrow> (int option \<Rightarrow> bool) option" where
  "where_int e v =
     (case v of
        JUndefined \<Rightarrow> None
      | JNull \<Rightarrow> Some (\<lambda>c. c = None)
      | JNum n \<Rightarrow> Some (\<lambda>c. c = Some n)
      | JStr s \<Rightarrow> Some (\<lambda>c. c \<noteq> None \<and> c = sql_int e (JStr s))
      | _ \<Rightarrow> other_where_int e v)"

definition where_text :: "env \<Rightarrow> jsval \<Rightarrow> (string \<Rightarrow> bool) option" where
  "where_text e v =
     (case v of
        JUndefined \<Rightarrow> None
      | JNull \<Rightarrow> Some (\<lambda>c. False)
      | JStr s \<Rightarrow> Some (\<lambda>c. c = s)
      | _ \<Rightarrow> other_where_text e v)"

text \<open>SQLite's \<open>LIKE\<close>: \<open>%\<close> is any run of characters, \<open>_\<close> any one character, and the
  letters A to Z match without regard to case.\<close>

definition lower :: "char \<Rightarrow> char" where
  "lower c = (let n = (of_char c :: nat) in if 65 \<le> n \<and> n \<le> 90 then char_of (n + 32) else c)"

fun like :: "string \<Rightarrow> string \<Rightarrow> bool" where
  "like [] s = (s = [])"
| "like (p # ps) [] = (p = CHR ''%'' \<and> like ps [])"
| "like (p # ps) (c # cs) =
     (if p = CHR ''%'' then like ps (c # cs) \<or> like (p # ps) cs
      else (p = CHR ''_'' \<or> lower p = lower c) \<and> like ps cs)"

text \<open>The order of TEXT values under SQLite's default collation: code unit by code unit.\<close>

fun text_less :: "string \<Rightarrow> string \<Rightarrow> bool" where
  "text_less [] [] = False"
| "text_less [] (y # ys) = True"
| "text_less (x # xs) [] = False"
| "text_less (x # xs) (y # ys) =
     ((of_char x :: nat) < of_char y \<or> (x = y \<and> text_less xs ys))"

text \<open>
  \<open>Model.findAll({where, order})\<close>: the query is built first, and is rejected when a
  condition is; then the rows that meet every condition, in the order asked for
  (rows that the order does not separate stay in table order).
\<close>

fun insert_by :: "('r \<Rightarrow> 'r \<Rightarrow> bool) \<Rightarrow> 'r \<Rightarrow> 'r list \<Rightarrow> 'r list" where
  "insert_by le x [] = [x]"
| "insert_by le x (y # ys) = (if le x y then x # y # ys else y # insert_by le x ys)"

definition order_by :: "('r \<Rightarrow> 'r \<Rightarrow> bool) \<Rightarrow> 'r list \<Rightarrow> 'r list" where
  "order_by le rows = foldr (insert_by le) rows []"

definition meets :: "('c \<Rightarrow> ('r \<Rightarrow> bool) option) \<Rightarrow> 'c list \<Rightarrow> 'r \<Rightarrow> bool" where
  "meets column w r = list_all (\<lambda>c. case column c of None \<Rightarrow> False | Some f \<Rightarrow> f r) w"

definition findAll ::
  "db \<Rightarrow> ('c \<Rightarrow> ('r \<Rightarrow> bool) option) \<Rightarrow> ('r \<Rightarrow> 'r \<Rightarrow> bool) \<Rightarrow> 'r list \<Rightarrow> 'c list
     \<Rightarrow> error + 'r list" where
  "findAll d column le rows w =
     (if list_ex (\<lambda>c. column c = None) w
      then Inl (Error ''Error'' [''WHERE parameter has invalid value''])
      else if \<not> online d then Inl unreachable
      else Inr (order_by le (filter (meets column w) rows)))"

definition project_column :: "env \<Rightarrow> string \<times> cond \<Rightarrow> (project_row \<Rightarrow> bool) option" where
  "project_column e c =
     (case c of
        (k, Eq v) \<Rightarrow>
          if k = ''createdBy''
          then map_option (\<lambda>m p. m (Some (p_createdBy p))) (where_int e v)
          else if k = ''status'' then map_option (\<lambda>m p. m (p_status p)) (where_text e v)
          else None
      | (k, Like pat) \<Rightarrow> if k = ''name'' then Some (\<lambda>p. like pat (p_name p)) else None)"

definition task_column :: "env \<Rightarrow> string \<times> cond \<Rightarrow> (task_row \<Rightarrow> bool) option" where
  "task_column e c =
     (case c of
        (k, Eq v) \<Rightarrow>
          if k = ''projectId''
          then map_option (\<lambda>m t. m (Some (t_projectId t))) (where_int e v)
          else if k = ''assignedTo'' then map_option (\<lambda>m t. m (t_assignedTo t)) (where_int e v)
          else if k = ''status'' then map_option (\<lambda>m t. m (t_status t)) (where_text e v)
          else if k = ''priority'' then map_option (\<lambda>m t. m (t_priority t)) (where_text e v)
          else None
      | (k, Like pat) \<Rightarrow> None)"

text \<open>\<open>order: [['createdAt', 'DESC']]\<close> and \<open>order: [['priority', 'DESC'], ['createdAt', 'DESC']]\<close>.\<close>

definition project_order :: "project_row \<Rightarrow> project_row \<Rightarrow> bool" where
  "project_order a b = (p_createdAt b \<le> p_createdAt a)"

definition task_order :: "task_row \<Rightarrow> task_row \<Rightarrow> bool" where
  "task_order a b =
     (text_less (t_priority b) (t_priority a)
      \<or> (t_priority a = t_priority b \<and> t_createdAt b \<le> t_createdAt a))"

text \<open>
  \<open>project.destroy()\<close>: the row goes, and with it every task that refers to it:
  \<open>models/index.js\<close> declares \<open>Project.hasMany(Task, {foreignKey: 'projectId', onDelete:
  'CASCADE'})\<close>, which the engine carries out with the delete.
\<close>

definition Project_destroy :: "db \<Rightarrow> project_row \<Rightarrow> error + db" where
  "Project_destroy d p =
     (if \<not> online d then Inl unreachable
      else Inr (d\<lparr> projects := filter (\<lambda>q. p_id q \<noteq> p_id p) (projects d),
                   tasks := filter (\<lambda>t. t_projectId t \<noteq> p_id p) (tasks d) \<rparr>))"

text \<open>
  The key an AUTOINCREMENT column gives the next row: one more than the largest key
  the table holds or ever held.
\<close>

definition next_id :: "int \<Rightarrow> int list \<Rightarrow> int" where
  "next_id seq ids = max seq (fold max ids 0) + 1"


section \<open>Requests\<close>

text \<open>
  What the gates and handlers read of an Express request: the Authorization header,
  the query string, the route parameters (strings), the JSON body, and what earlier
  middleware attached (\<open>req.user\<close>, \<open>req.project\<close>).
\<close>

record ident =
  ident_id :: int
  ident_email :: string
  ident_role :: string

record request =
  authorization :: "string option"
  query :: "(string \<times> jsval) list"
  params :: "(string \<times> string) list"
  body :: "(string \<times> jsval) list"
  user :: "ident option"
  project :: "project_row option"

definition param :: "request \<Rightarrow> string \<Rightarrow> jsval" where
  "param req k = (case map_of (params req) k of None \<Rightarrow> JUndefined | Some s \<Rightarrow> JStr s)"

text \<open>\<open>req.query.format || 'json'\<close>\<close>

definition query_format :: "request \<Rightarrow> jsval" where
  "query_format req = js_or (field (query req) ''format'') (JStr ''json'')"

text \<open>A middleware either sends a response, or calls \<open>next()\<close> on the request as it left it.\<close>

datatype gate = Halt response | Next request

text \<open>
  What a gate that stops a request leaves on \<open>res\<close>, written out: the status line,
  the content type and the body in the format asked for, with the envelope of a failure
  (no success, the code, the message, no data, the time).
\<close>

abbreviation failure :: "env \<Rightarrow> int \<Rightarrow> string \<Rightarrow> envelope" where
  "failure e c msg \<equiv>
     \<lparr> success = False, code = c, message = msg, data = JNull, timestamp = clock e \<rparr>"

abbreviation rejection :: "env \<Rightarrow> request \<Rightarrow> int \<Rightarrow> string \<Rightarrow> response" where
  "rejection e req c msg \<equiv>
     (if query_format req = JStr ''xml''
      then \<lparr> res_status = c, res_contentType = ''application/xml'',
             res_body = XmlBody (''response'',
               XElems [(''success'', XText ''false''), (''code'', XText (show_int c)),
                       (''message'', XText msg), (''data'', XText ''null''),
                       (''timestamp'', XText (clock e))]) \<rparr>
      else \<lparr> res_status = c, res_contentType = ''application/json'',
             res_body = JsonBody (failure e c msg) \<rparr>)"


section \<open>Credential Codec (utils/jwt.js)\<close>

definition verifyToken :: "env \<Rightarrow> string \<Rightarrow> jsval" where
  "verifyToken e token = (case jwt_verify e token of None \<Rightarrow> JNull | Some decoded \<Rightarrow> decoded)"


section \<open>Authentication Gate (middlewares/auth.js, authenticate)\<close>

text \<open>\<open>s.split(' ')\<close>\<close>

fun split_space :: "string \<Rightarrow> string list" where
  "split_space [] = [[]]"
| "split_space (c # cs) =
     (if c = CHR '' '' then [] # split_space cs
      else (case split_space cs of [] \<Rightarrow> [[c]] | part # parts \<Rightarrow> (c # part) # parts))"

text \<open>
  The token of a header, as the gate reads it: \<open>const [scheme, token] =
  authHeader.split(' ')\<close>, accepted when \<open>scheme === 'Bearer'\<close> and \<open>token\<close> is not empty.
\<close>

definition bearer_token :: "string \<Rightarrow> string option" where
  "bearer_token authHeader =
     (case split_space authHeader of
        scheme # token # rest \<Rightarrow> if scheme = ''Bearer'' \<and> token \<noteq> [] then Some token else None
      | _ \<Rightarrow> None)"

abbreviation NO_TOKEN :: string where
  "NO_TOKEN \<equiv> ''No se proporcion'' @ [oacute] @ '' token de autenticaci'' @ [oacute] @ ''n''"

abbreviation BAD_FORMAT :: string where
  "BAD_FORMAT \<equiv> ''Formato de token inv'' @ [aacute] @ ''lido''"

abbreviation BAD_TOKEN :: string where
  "BAD_TOKEN \<equiv> ''Token inv'' @ [aacute] @ ''lido o expirado''"

abbreviation NO_USER :: string where
  "NO_USER \<equiv> ''Usuario no encontrado o inactivo''"

abbreviation AUTH_ERROR :: string where
  "AUTH_ERROR \<equiv> ''Error en autenticaci'' @ [oacute] @ ''n''"

text \<open>The body of the \<open>try\<close> block: \<open>Inl\<close> is an exception leaving it.\<close>

definition authenticate_try :: "env \<Rightarrow> db \<Rightarrow> request \<Rightarrow> error + gate" where
  "authenticate_try e d req =
     (let format = query_format req in
      case authorization req of
        None \<Rightarrow> Inr (Halt (formatResponse e 401 JNull (Some NO_TOKEN) format))
      | Some authHeader \<Rightarrow>
          if authHeader = [] then Inr (Halt (formatResponse e 401 JNull (Some NO_TOKEN) format))
          else
            (case split_space authHeader of
               scheme # token # rest \<Rightarrow>
                 if scheme \<noteq> ''Bearer'' \<or> token = []
                 then Inr (Halt (formatResponse e 401 JNull (Some BAD_FORMAT) format))
                 else
                   (let decoded = verifyToken e token in
                    if \<not> truthy decoded
                    then Inr (Halt (formatResponse e 401 JNull (Some BAD_TOKEN) format))
                    else
                      (case User_findByPk e d (get_prop decoded ''id'') of
                         Inl err \<Rightarrow> Inl err
                       | Inr None \<Rightarrow>
                           Inr (Halt (formatResponse e 401 JNull (Some NO_USER) format))
                       | Inr (Some u) \<Rightarrow>
                           if \<not> u_active u
                           then Inr (Halt (formatResponse e 401 JNull (Some NO_USER) format))
                           else Inr (Next (req\<lparr> user := Some \<lparr> ident_id = u_id u,
                                  ident_email = u_email u, ident_role = u_role u \<rparr> \<rparr>))))
             | _ \<Rightarrow> Inr (Halt (formatResponse e 401 JNull (Some BAD_FORMAT) format))))"

definition authenticate :: "env \<Rightarrow> db \<Rightarrow> request \<Rightarrow> gate" where
  "authenticate e d req =
     (case authenticate_try e d req of
        Inr g \<Rightarrow> g
      | Inl err \<Rightarrow> Halt (formatResponse e 500 JNull (Some AUTH_ERROR) (query_format req)))"


section \<open>Authorization Gate (middlewares/auth.js, isProjectOwnerOrAdmin)\<close>

abbreviation NO_PROJECT_ID :: string where
  "NO_PROJECT_ID \<equiv> ''ID de proyecto no proporcionado''"

abbreviation NO_PROJECT :: string where
  "NO_PROJECT \<equiv> ''Proyecto no encontrado''"

abbreviation NOT_ALLOWED :: string where
  "NOT_ALLOWED \<equiv> ''No tiene permiso para modificar este proyecto''"

abbreviation PERMISSION_ERROR :: string where
  "PERMISSION_ERROR \<equiv> ''Error al verificar permisos''"

text \<open>Reading \<open>req.user.id\<close> or \<open>req.user.role\<close> when \<open>req.user\<close> is \<open>undefined\<close> throws.\<close>

definition no_user :: error where
  "no_user = Error ''TypeError'' []"

text \<open>\<open>project.createdBy === req.user.id || req.user.role === 'admin'\<close>\<close>

definition owner_or_admin :: "project_row \<Rightarrow> ident \<Rightarrow> bool" where
  "owner_or_admin p u = (p_createdBy p = ident_id u \<or> ident_role u = ''admin'')"

text \<open>\<open>req.params.projectId || req.params.id || req.body.projectId\<close>\<close>

abbreviation resolved_project_id :: "request \<Rightarrow> jsval" where
  "resolved_project_id req \<equiv>
     js_or (js_or (param req ''projectId'') (param req ''id'')) (field (body req) ''projectId'')"

definition isProjectOwnerOrAdmin_try :: "env \<Rightarrow> db \<Rightarrow> request \<Rightarrow> error + gate" where
  "isProjectOwnerOrAdmin_try e d req =
     (let format = query_format req;
          projectId = resolved_project_id req
      in if \<not> truthy projectId
         then Inr (Halt (formatResponse e 400 JNull (Some NO_PROJECT_ID) format))
         else
           (case Project_findByPk e d projectId of
              Inl err \<Rightarrow> Inl err
            | Inr None \<Rightarrow> Inr (Halt (formatResponse e 404 JNull (Some NO_PROJECT) format))
            | Inr (Some p) \<Rightarrow>
                (case user req of
                   None \<Rightarrow> Inl no_user
                 | Some u \<Rightarrow>
                     if owner_or_admin p u
                     then Inr (Next (req\<lparr> project := Some p \<rparr>))
                     else Inr (Halt (formatResponse e 403 JNull (Some NOT_ALLOWED) format)))))"

definition isProjectOwnerOrAdmin :: "env \<Rightarrow> db \<Rightarrow> request \<Rightarrow> gate" where
  "isProjectOwnerOrAdmin e d req =
     (case isProjectOwnerOrAdmin_try e d req of
        Inr g \<Rightarrow> g
      | Inl err \<Rightarrow> Halt (formatResponse e 500 JNull (Some PERMISSION_ERROR) (query_format req)))"


section \<open>Routes (routes/projectRoutes.js)\<close>

text \<open>
  \<open>router.use(authenticate)\<close>, then \<open>router.put('/:id', isProjectOwnerOrAdmin, ...)\<close>:
  Express runs the second middleware on the request the first passed on. What the rest
  of the route sees of a gate is the response it sent, or the identity and the project
  it attached.
\<close>

definition chain :: "(request \<Rightarrow> gate) \<Rightarrow> (request \<Rightarrow> gate) \<Rightarrow> request \<Rightarrow> gate" where
  "chain first second req = (case first req of Halt r \<Rightarrow> Halt r | Next req' \<Rightarrow> second req')"

definition outcome :: "gate \<Rightarrow> response + (ident option \<times> project_row option)" where
  "outcome g = (case g of Halt r \<Rightarrow> Inl r | Next req \<Rightarrow> Inr (user req, project req))"


section \<open>Resource Handlers (controllers/)\<close>

text \<open>
  A handler ends in \<open>res.formatResponse(statusCode, data, message)\<close>; its reply is that
  call: the status code, the data (\<open>None\<close>: \<open>null\<close>) and the message. A handler that
  writes also returns the database as it leaves it.
\<close>

datatype 'a reply = Reply int "'a option" "string option"

definition reply_status :: "'a reply \<Rightarrow> int" where
  "reply_status r = (case r of Reply c x m \<Rightarrow> c)"

text \<open>
  The included associations, with the attributes asked for: id, name, email of a
  user; id, title, status of a task (the first five of a project, in table order).
\<close>

definition user_ref :: "db \<Rightarrow> int \<Rightarrow> (int \<times> string \<times> string) option" where
  "user_ref d uid =
     map_option (\<lambda>u. (u_id u, u_name u, u_email u)) (find (\<lambda>u. u_id u = uid) (users d))"

record project_view =
  pv_project :: project_row
  pv_creator :: "(int \<times> string \<times> string) option"
  pv_tasks :: "(int \<times> string \<times> string) list"

definition project_view :: "db \<Rightarrow> project_row \<Rightarrow> project_view" where
  "project_view d p =
     \<lparr> pv_project = p,
       pv_creator = user_ref d (p_createdBy p),
       pv_tasks = take 5 (map (\<lambda>t. (t_id t, t_title t, t_status t))
                    (filter (\<lambda>t. t_projectId t = p_id p) (tasks d))) \<rparr>"

record task_view =
  tv_task :: task_row
  tv_assignee :: "(int \<times> string \<times> string) option"

definition task_view :: "db \<Rightarrow> task_row \<Rightarrow> task_view" where
  "task_view d t =
     \<lparr> tv_task = t,
       tv_assignee = (case t_assignedTo t of None \<Rightarrow> None | Some a \<Rightarrow> user_ref d a) \<rparr>"


subsection \<open>projectController.js, getProjects\<close>

text \<open>\<open>whereConditions\<close>, as the handler builds it.\<close>

definition getProjects_where :: "env \<Rightarrow> request \<Rightarrow> ident \<Rightarrow> (string \<times> cond) list" where
  "getProjects_where e req u =
     (let status = field (query req) ''status'';
          search = field (query req) ''search''
      in [(''createdBy'', Eq (if ident_role u = ''admin'' then JUndefined else JNum (ident_id u)))]
         @ (if truthy status
               \<and> status \<in> set [JStr ''active'', JStr ''completed'', JStr ''canceled'']
            then [(''status'', Eq status)] else [])
         @ (if truthy search then [(''name'', Like (''%'' @ String e search @ ''%''))] else []))"

definition getProjects_try :: "env \<Rightarrow> db \<Rightarrow> request \<Rightarrow> error + project_view list reply" where
  "getProjects_try e d req =
     (case user req of
        None \<Rightarrow> Inl no_user
      | Some u \<Rightarrow>
          (case findAll d (project_column e) project_order (projects d) (getProjects_where e req u) of
             Inl err \<Rightarrow> Inl err
           | Inr found \<Rightarrow>
               Inr (Reply 200 (Some (map (project_view d) found))
                      (Some ''Proyectos obtenidos correctamente''))))"

definition getProjects :: "env \<Rightarrow> db \<Rightarrow> request \<Rightarrow> project_view list reply" where
  "getProjects e d req =
     (case getProjects_try e d req of
        Inr r \<Rightarrow> r
      | Inl err \<Rightarrow> Reply 500 None (Some ''Error al obtener proyectos''))"


subsection \<open>projectController.js, deleteProject\<close>

definition deleteProject_try :: "env \<Rightarrow> db \<Rightarrow> request \<Rightarrow> error + (jsval reply \<times> db)" where
  "deleteProject_try e d req =
     (let id = param req ''id'' in
      case Project_findByPk e d id of
        Inl err \<Rightarrow> Inl err
      | Inr None \<Rightarrow> Inr (Reply 404 None (Some ''Proyecto no encontrado''), d)
      | Inr (Some p) \<Rightarrow>
          (case user req of
             None \<Rightarrow> Inl no_user
           | Some u \<Rightarrow>
               if p_createdBy p \<noteq> ident_id u \<and> ident_role u \<noteq> ''admin''
               then Inr (Reply 403 None (Some ''No tiene permisos para eliminar este proyecto''), d)
               else
                 (case Project_destroy d p of
                    Inl err \<Rightarrow> Inl err
                  | Inr d' \<Rightarrow>
                      Inr (Reply 200 (Some (JObj [(''id'', id)]))
                             (Some ''Proyecto eliminado correctamente''), d'))))"

definition deleteProject :: "env \<Rightarrow> db \<Rightarrow> request \<Rightarrow> jsval reply \<times> db" where
  "deleteProject e d req =
     (case deleteProject_try e d req of
        Inr r \<Rightarrow> r
      | Inl err \<Rightarrow> (Reply 500 None (Some ''Error al eliminar proyecto''), d))"


subsection \<open>taskController.js, getProjectTasks\<close>

definition getProjectTasks_where :: "request \<Rightarrow> (string \<times> cond) list" where
  "getProjectTasks_where req =
     (let projectId = param req ''projectId'';
          status = field (query req) ''status'';
          priority = field (query req) ''priority'';
          assignedTo = field (query req) ''assignedTo''
      in [(''projectId'', Eq projectId)]
         @ (if truthy status
               \<and> status \<in> set [JStr ''pending'', JStr ''in_progress'', JStr ''completed'',
                                JStr ''canceled'']
            then [(''status'', Eq status)] else [])
         @ (if truthy priority \<and> priority \<in> set [JStr ''low'', JStr ''medium'', JStr ''high'']
            then [(''priority'', Eq priority)] else [])
         @ (if truthy assignedTo then [(''assignedTo'', Eq assignedTo)] else []))"

definition getProjectTasks_try :: "env \<Rightarrow> db \<Rightarrow> request \<Rightarrow> error + task_view list reply" where
  "getProjectTasks_try e d req =
     (case Project_findByPk e d (param req ''projectId'') of
        Inl err \<Rightarrow> Inl err
      | Inr None \<Rightarrow> Inr (Reply 404 None (Some ''Proyecto no encontrado''))
      | Inr (Some p) \<Rightarrow>
          (case user req of
             None \<Rightarrow> Inl no_user
           | Some u \<Rightarrow>
               if p_createdBy p \<noteq> ident_id u \<and> ident_role u \<noteq> ''admin''
               then Inr (Reply 403 None
                           (Some ''No tiene permisos para ver las tareas de este proyecto''))
               else
                 (case findAll d (task_column e) task_order (tasks d) (getProjectTasks_where req) of
                    Inl err \<Rightarrow> Inl err
                  | Inr found \<Rightarrow>
                      Inr (Reply 200 (Some (map (task_view d) found))
                             (Some ''Tareas obtenidas correctamente'')))))"

definition getProjectTasks :: "env \<Rightarrow> db \<Rightarrow> request \<Rightarrow> task_view list reply" where
  "getProjectTasks e d req =
     (case getProjectTasks_try e d req of
        Inr r \<Rightarrow> r
      | Inl err \<Rightarrow> Reply 500 None (Some ''Error al obtener tareas''))"


subsection \<open>taskController.js, createTask\<close>

definition foreign_key :: error where
  "foreign_key = Error ''SequelizeForeignKeyConstraintError'' []"

text \<open>
  \<open>Task.create(values)\<close>: the model validates, then the row is inserted with the next
  key. The engine refuses a \<open>projectId\<close> or an \<open>assignedTo\<close> that is no key of its table
  (\<open>assignedTo\<close> may be NULL).
\<close>

definition Task_create ::
  "env \<Rightarrow> db \<Rightarrow> jsval \<Rightarrow> jsval \<Rightarrow> jsval \<Rightarrow> jsval \<Rightarrow> jsval \<Rightarrow> jsval \<Rightarrow> jsval
     \<Rightarrow> error + (task_row \<times> db)" where
  "Task_create e d title description status priority dueDate projectId assignedTo =
     (case task_values e title description status priority dueDate of
        Inl msgs \<Rightarrow> Inl (Error ''SequelizeValidationError'' msgs)
      | Inr (ti, de, st, pr, du) \<Rightarrow>
          if \<not> online d then Inl unreachable
          else
            (case pk_of e projectId of
               None \<Rightarrow> Inl foreign_key
             | Some pid \<Rightarrow>
                 if find (\<lambda>p. p_id p = pid) (projects d) = None then Inl foreign_key
                 else
                   (let assigned =
                      (if assignedTo = JUndefined \<or> assignedTo = JNull then Some None
                       else (case pk_of e assignedTo of
                               None \<Rightarrow> None
                             | Some a \<Rightarrow> if find (\<lambda>u. u_id u = a) (users d) = None then None
                                          else Some (Some a)))
                    in case assigned of
                         None \<Rightarrow> Inl foreign_key
                       | Some a \<Rightarrow>
                           (let row = \<lparr> t_id = next_id (task_seq d) (map t_id (tasks d)),
                                        t_title = ti,
                                        t_description = de, t_status = st, t_priority = pr,
                                        t_dueDate = du, t_projectId = pid, t_assignedTo = a,
                                        t_createdAt = clock_ms e \<rparr>
                            in Inr (row, d\<lparr> tasks := tasks d @ [row],
                                            task_seq := t_id row \<rparr>)))))"

abbreviation TITLE_REQUIRED :: string where
  "TITLE_REQUIRED \<equiv> ''El t'' @ [iacute] @ ''tulo de la tarea es requerido''"

abbreviation MAY_NOT_ADD :: string where
  "MAY_NOT_ADD \<equiv> ''No tiene permisos para a'' @ [ntilde] @ ''adir tareas a este proyecto''"

abbreviation NO_ASSIGNEE :: string where
  "NO_ASSIGNEE \<equiv> ''Usuario asignado no encontrado''"

definition createTask_try :: "env \<Rightarrow> db \<Rightarrow> request \<Rightarrow> error + (task_view reply \<times> db)" where
  "createTask_try e d req =
     (let projectId = param req ''projectId'';
          title = field (body req) ''title'';
          description = field (body req) ''description'';
          status = field (body req) ''status'';
          priority = field (body req) ''priority'';
          dueDate = field (body req) ''dueDate'';
          assignedTo = field (body req) ''assignedTo''
      in if \<not> truthy title then Inr (Reply 400 None (Some TITLE_REQUIRED), d)
         else
           (case Project_findByPk e d projectId of
              Inl err \<Rightarrow> Inl err
            | Inr None \<Rightarrow> Inr (Reply 404 None (Some NO_PROJECT), d)
            | Inr (Some p) \<Rightarrow>
                (case user req of
                   None \<Rightarrow> Inl no_user
                 | Some u \<Rightarrow>
                     if p_createdBy p \<noteq> ident_id u \<and> ident_role u \<noteq> ''admin''
                     then Inr (Reply 403 None (Some MAY_NOT_ADD), d)
                     else
                       (case (if truthy assignedTo then User_findByPk e d assignedTo
                              else Inr None) of
                          Inl err \<Rightarrow> Inl err
                        | Inr assignee \<Rightarrow>
                            if truthy assignedTo \<and> assignee = None
                            then Inr (Reply 404 None (Some NO_ASSIGNEE), d)
                            else
                              (case Task_create e d title description
                                      (js_or status (JStr ''pending''))
                                      (js_or priority (JStr ''medium''))
                                      dueDate projectId assignedTo of
                                 Inl err \<Rightarrow> Inl err
                               | Inr (task, d') \<Rightarrow>
                                   if truthy assignedTo
                                   then Inr (Reply 201 (Some (task_view d' task))
                                               (Some ''Tarea creada correctamente''), d')
                                   else Inr (Reply 201
                                               (Some \<lparr> tv_task = task, tv_assignee = None \<rparr>)
                                               (Some ''Tarea creada correctamente''), d'))))))"

text \<open>
  The \<open>catch\<close> block. Nothing is written before the insert, and the database that
  answered the insert answers the \<open>reload\<close> after it, so an exception leaves the
  database as it was.
\<close>

definition createTask :: "env \<Rightarrow> db \<Rightarrow> request \<Rightarrow> task_view reply \<times> db" where
  "createTask e d req =
     (case createTask_try e d req of
        Inr r \<Rightarrow> r
      | Inl err \<Rightarrow>
          if error_name err = ''SequelizeValidationError''
          then (Reply 400 None (Some (join_with '', '' (error_messages err))), d)
          else (Reply 500 None (Some ''Error al crear tarea''), d))"


subsection \<open>authController.js, register\<close>

text \<open>\<open>User.findOne({ where: { email } })\<close>\<close>

definition User_findOne_email :: "env \<Rightarrow> db \<Rightarrow> jsval \<Rightarrow> error + user_row option" where
  "User_findOne_email e d email =
     (case where_text e email of
        None \<Rightarrow> Inl (Error ''Error'' [''WHERE parameter has invalid value''])
      | Some m \<Rightarrow>
          if \<not> online d then Inl unreachable
          else Inr (find (\<lambda>u. m (u_email u)) (users d)))"

text \<open>\<open>/^(?=.*[a-z])(?=.*[A-Z])(?=.*\d)[a-zA-Z\d]{8,}$/.test(password)\<close>\<close>

definition is_lower :: "char \<Rightarrow> bool" where
  "is_lower c = (97 \<le> (of_char c :: nat) \<and> (of_char c :: nat) \<le> 122)"

definition is_upper :: "char \<Rightarrow> bool" where
  "is_upper c = (65 \<le> (of_char c :: nat) \<and> (of_char c :: nat) \<le> 90)"

definition is_digit :: "char \<Rightarrow> bool" where
  "is_digit c = (48 \<le> (of_char c :: nat) \<and> (of_char c :: nat) \<le> 57)"

definition passwordRegex_test :: "env \<Rightarrow> jsval \<Rightarrow> bool" where
  "passwordRegex_test e password =
     (let s = String e password
      in list_ex is_lower s \<and> list_ex is_upper s \<and> list_ex is_digit s
         \<and> list_all (\<lambda>c. is_lower c \<or> is_upper c \<or> is_digit c) s \<and> 8 \<le> length s)"

text \<open>
  \<open>User.create(values)\<close>: the model validates and hashes the password, then the row is
  inserted with the next key, \<open>active\<close> by default; the engine refuses an email that a
  row already has.
\<close>

definition User_create ::
  "env \<Rightarrow> db \<Rightarrow> jsval \<Rightarrow> jsval \<Rightarrow> jsval \<Rightarrow> string \<Rightarrow> error + (user_row \<times> db)" where
  "User_create e d name email password role =
     (case user_values e name email password of
        Inl msgs \<Rightarrow> Inl (Error ''SequelizeValidationError'' msgs)
      | Inr (n, m, h) \<Rightarrow>
          if \<not> online d then Inl unreachable
          else if find (\<lambda>u. u_email u = m) (users d) \<noteq> None
          then Inl (Error ''SequelizeUniqueConstraintError'' [''email must be unique''])
          else
            (let row = \<lparr> u_id = next_id (user_seq d) (map u_id (users d)), u_name = n,
                         u_email = m, u_password = h, u_role = role, u_active = True,
                         u_createdAt = clock_ms e \<rparr>
             in Inr (row, d\<lparr> users := users d @ [row], user_seq := u_id row \<rparr>)))"

record user_data =
  ud_id :: int
  ud_name :: string
  ud_email :: string
  ud_role :: string
  ud_createdAt :: nat

abbreviation EMAIL_TAKEN :: string where
  "EMAIL_TAKEN \<equiv> ''El correo electr'' @ [oacute] @ ''nico ya est'' @ [aacute] @ '' registrado''"

abbreviation WEAK_PASSWORD :: string where
  "WEAK_PASSWORD \<equiv> ''La contrase'' @ [ntilde] @ ''a debe tener al menos 8 caracteres, una may''
     @ [uacute] @ ''scula, una min'' @ [uacute] @ ''scula y un n'' @ [uacute] @ ''mero''"

definition register_try :: "env \<Rightarrow> db \<Rightarrow> request \<Rightarrow> error + (user_data reply \<times> db)" where
  "register_try e d req =
     (let name = field (body req) ''name'';
          email = field (body req) ''email'';
          password = field (body req) ''password'';
          role = field (body req) ''role''
      in case User_findOne_email e d email of
           Inl err \<Rightarrow> Inl err
         | Inr (Some existingUser) \<Rightarrow> Inr (Reply 400 None (Some EMAIL_TAKEN), d)
         | Inr None \<Rightarrow>
             if \<not> passwordRegex_test e password
             then Inr (Reply 400 None (Some WEAK_PASSWORD), d)
             else
               (case User_create e d name email password
                       (if role = JStr ''admin'' then ''admin'' else ''user'') of
                  Inl err \<Rightarrow> Inl err
                | Inr (u, d') \<Rightarrow>
                    Inr (Reply 201
                           (Some \<lparr> ud_id = u_id u, ud_name = u_name u, ud_email = u_email u,
                                   ud_role = u_role u, ud_createdAt = u_createdAt u \<rparr>)
                           (Some ''Usuario registrado correctamente''), d')))"

definition register :: "env \<Rightarrow> db \<Rightarrow> request \<Rightarrow> user_data reply \<times> db" where
  "register e d req =
     (case register_try e d req of
        Inr r \<Rightarrow> r
      | Inl err \<Rightarrow>
          if error_name err = ''SequelizeValidationError''
             \<or> error_name err = ''SequelizeUniqueConstraintError''
          then (Reply 400 None (Some (join_with '', '' (error_messages err))), d)
          else (Reply 500 None (Some ''Error al registrar usuario''), d))"


text \<open>\<open>role === 'admin' ? 'admin' : 'user'\<close>\<close>

abbreviation chosen_role :: "request \<Rightarrow> string" where
  "chosen_role req \<equiv> (if field (body req) ''role'' = JStr ''admin'' then ''admin'' else ''user'')"


section \<open>A small world to run the model in\<close>

text \<open>
  One environment, one database and one request, for the instances below: three
  users (Alice, Bob the administrator, Carol who is inactive), Alice's project Alpha
  with a task of each priority, and Bob's project Beta. The tokens \<open>stale\<close> and
  \<open>fresh\<close> both name Alice; \<open>stale\<close> carries an email and a role she no longer has.
\<close>

definition example_env :: env where
  "example_env =
     \<lparr> jwt_verify = (\<lambda>token.
          if token = ''stale'' then Some (JObj [(''id'', JNum 1), (''email'', JStr ''old@example.com''), (''role'', JStr ''admin'')])
          else if token = ''fresh'' then Some (JObj [(''id'', JNum 1), (''email'', JStr ''alice@example.com''), (''role'', JStr ''user'')])
          else if token = ''bob'' then Some (JObj [(''id'', JNum 2)])
          else if token = ''carol'' then Some (JObj [(''id'', JNum 3)])
          else if token = ''ghost'' then Some (JObj [(''id'', JNum 99)])
          else if token = ''odd'' then Some (JObj [(''id'', JBool True)])
          else None),
       clock = ''2024-01-01T00:00:00.000Z'',
       clock_ms = 1000,
       big_number_text = (\<lambda>n. ''1e+21''),
       sql_int = (\<lambda>v. if v = JStr ''10'' then Some 10 else if v = JStr ''11'' then Some 11 else None),
       other_where_int = (\<lambda>v. None),
       other_where_text = (\<lambda>v. None),
       user_values = (\<lambda>name email password.
          case (name, email, password) of
            (JStr n, JStr m, JStr p) \<Rightarrow> Inr (n, m, ''hash of '' @ p)
          | _ \<Rightarrow> Inl [''invalid'']),
       task_values = (\<lambda>title description status priority dueDate.
          case (title, status, priority) of
            (JStr t, JStr s, JStr p) \<Rightarrow> Inr (t, None, s, p, None)
          | _ \<Rightarrow> Inl [''invalid'']) \<rparr>"

definition alice :: user_row where
  "alice = \<lparr> u_id = 1, u_name = ''Alice'', u_email = ''alice@example.com'', u_password = ''x'',
             u_role = ''user'', u_active = True, u_createdAt = 1 \<rparr>"

definition bob :: user_row where
  "bob = \<lparr> u_id = 2, u_name = ''Bob'', u_email = ''bob@example.com'', u_password = ''y'',
           u_role = ''admin'', u_active = True, u_createdAt = 2 \<rparr>"

definition carol :: user_row where
  "carol = \<lparr> u_id = 3, u_name = ''Carol'', u_email = ''carol@example.com'', u_password = ''z'',
             u_role = ''user'', u_active = False, u_createdAt = 3 \<rparr>"

definition alpha :: project_row where
  "alpha = \<lparr> p_id = 10, p_name = ''Alpha'', p_description = None, p_status = ''active'',
             p_startDate = ''2024-01-01'', p_endDate = None, p_createdBy = 1, p_createdAt = 5 \<rparr>"

definition beta :: project_row where
  "beta = \<lparr> p_id = 11, p_name = ''Beta'', p_description = None, p_status = ''completed'',
            p_startDate = ''2024-01-02'', p_endDate = None, p_createdBy = 2, p_createdAt = 6 \<rparr>"

definition task_high :: task_row where
  "task_high = \<lparr> t_id = 100, t_title = ''Design'', t_description = None, t_status = ''pending'',
                 t_priority = ''high'', t_dueDate = None, t_projectId = 10, t_assignedTo = None,
                 t_createdAt = 7 \<rparr>"

definition task_medium :: task_row where
  "task_medium = \<lparr> t_id = 101, t_title = ''Build'', t_description = None, t_status = ''pending'',
                   t_priority = ''medium'', t_dueDate = None, t_projectId = 10,
                   t_assignedTo = Some 1, t_createdAt = 8 \<rparr>"

definition task_low :: task_row where
  "task_low = \<lparr> t_id = 102, t_title = ''Ship'', t_description = None, t_status = ''pending'',
                t_priority = ''low'', t_dueDate = None, t_projectId = 10, t_assignedTo = None,
                t_createdAt = 9 \<rparr>"

definition task_beta :: task_row where
  "task_beta = \<lparr> t_id = 103, t_title = ''Plan'', t_description = None, t_status = ''pending'',
                 t_priority = ''high'', t_dueDate = None, t_projectId = 11, t_assignedTo = None,
                 t_createdAt = 10 \<rparr>"

definition example_db :: db where
  "example_db = \<lparr> users = [alice, bob, carol], projects = [alpha, beta],
                  tasks = [task_high, task_medium, task_low, task_beta], online = True,
                  user_seq = 3, task_seq = 103 \<rparr>"

definition example_request :: request where
  "example_request = \<lparr> authorization = None, query = [], params = [], body = [],
                       user = None, project = None \<rparr>"

definition as_alice :: request where
  "as_alice = example_request\<lparr> user := Some \<lparr> ident_id = 1, ident_email = ''alice@example.com'', ident_role = ''user'' \<rparr> \<rparr>"

definition as_bob :: request where
  "as_bob = example_request\<lparr> user := Some \<lparr> ident_id = 2, ident_email = ''bob@example.com'', ident_role = ''admin'' \<rparr> \<rparr>"

definition orphan_assignee :: request where
  "orphan_assignee = as_alice\<lparr> params := [(''projectId'', ''10'')],
       body := [(''assignedTo'', JNum 99)] \<rparr>"

definition signup :: request where
  "signup = example_request\<lparr> body := [(''name'', JStr ''Dave''), (''email'', JStr ''dave@example.com''),
       (''password'', JStr ''Passw0rdX''), (''role'', JStr ''admin'')] \<rparr>"

lemmas fixtures = example_env_def example_db_def example_request_def alice_def bob_def carol_def
  alpha_def beta_def task_high_def task_medium_def task_low_def task_beta_def


section \<open>Response Formatter: the default message and the data field\<close>

text \<open>
  Claim C6, as the spec has it: with no explicit message the envelope's message comes from
  a fixed table keyed by the status code, 200 "OK", 201 "Created", 400 "Bad Request",
  401 "Unauthorized", 403 "Forbidden", 404 "Not Found", 500 "Internal Server Error",
  and "Operation completed" for every other code. The table of the program holds
  other strings: for 201 it answers "Recurso creado correctamente".
\<close>

theorem default_message_201_is_not_Created:
  "message (response_object example_env 201 JNull None) = ''Recurso creado correctamente''
   \<and> message (response_object example_env 201 JNull None) \<noteq> ''Created''"
  by (simp add: response_object_def getDefaultMessage_def)

text \<open>
  Claim C6, amended: with no explicit message the envelope's message comes from a fixed
  table keyed by the status code: 200 "OK", 201 "Recurso creado correctamente",
  400 "Solicitud incorrecta", 401 "No autorizado", 403 "Acceso prohibido",
  404 "Recurso no encontrado", 500 "Error interno del servidor", and
  "Operacion completada" (its second o with an acute accent) for every other code; the
  envelope is the body sent, as JSON or through the XML generator.
\<close>

theorem default_message_table:
  "message (response_object e 200 dat None) = ''OK''
   \<and> message (response_object e 201 dat None) = ''Recurso creado correctamente''
   \<and> message (response_object e 400 dat None) = ''Solicitud incorrecta''
   \<and> message (response_object e 401 dat None) = ''No autorizado''
   \<and> message (response_object e 403 dat None) = ''Acceso prohibido''
   \<and> message (response_object e 404 dat None) = ''Recurso no encontrado''
   \<and> message (response_object e 500 dat None) = ''Error interno del servidor''
   \<and> (c \<notin> {200, 201, 400, 401, 403, 404, 500} \<longrightarrow>
        message (response_object e c dat None) = ''Operaci'' @ [oacute] @ ''n completada'')
   \<and> res_body (formatResponse e c dat None format) =
        (if format = JStr ''xml'' then XmlBody (generateXML e (response_object e c dat None))
         else JsonBody (response_object e c dat None))"
  by (simp add: response_object_def getDefaultMessage_def formatResponse_def Let_def)

theorem default_message_table_witness:
  "message (response_object example_env 204 JNull None) = ''Operaci'' @ [oacute] @ ''n completada''
   \<and> res_body (formatResponse example_env 204 JNull None (JStr ''json'')) =
        JsonBody \<lparr> success = True, code = 204,
                   message = ''Operaci'' @ [oacute] @ ''n completada'', data = JNull,
                   timestamp = ''2024-01-01T00:00:00.000Z'' \<rparr>"
  using default_message_table [where c = 204 and e = example_env and dat = JNull
      and format = "JStr ''json''"]
  by (simp add: response_object_def getDefaultMessage_def js_or_def example_env_def)

text \<open>The falsy values are five.\<close>

lemma falsy_iff: "\<not> truthy v \<longleftrightarrow> v \<in> {JNull, JUndefined, JNum 0, JStr [], JBool False}"
  by (cases v) auto




section \<open>Authentication Gate: the order of the checks\<close>

text \<open>
  How \<open>split(' ')\<close> cuts a header, and what a header that carries a token looks
  like (\<open>bearer_token_iff\<close>): the word \<open>Bearer\<close>, one space, a token that is not empty
  and has no space in it, and then nothing or a space and anything.
\<close>

lemma split_space_nonempty: "split_space s \<noteq> []"
  by (induction s) (auto split: list.splits)

lemma split_space_no_space: "CHR '' '' \<notin> set s \<Longrightarrow> split_space s = [s]"
  by (induction s) auto

lemma split_space_append: "CHR '' '' \<notin> set a \<Longrightarrow> split_space (a @ CHR '' '' # b) = a # split_space b"
  by (induction a) auto

lemma split_space_decomp:
  "split_space h = a # b # rest \<Longrightarrow>
     CHR '' '' \<notin> set a \<and> (\<exists>h'. h = a @ CHR '' '' # h' \<and> split_space h' = b # rest)"
proof (induction h arbitrary: a)
  case Nil
  then show ?case by simp
next
  case (Cons c cs)
  show ?case
  proof (cases "c = CHR '' ''")
    case True
    with Cons.prems show ?thesis by auto
  next
    case False
    with Cons.prems obtain p ps where sp: "split_space cs = p # ps" and a: "a = c # p" and r: "ps = b # rest"
      by (auto split: list.splits)
    from Cons.IH [of p] sp r have "CHR '' '' \<notin> set p \<and> (\<exists>h'. cs = p @ CHR '' '' # h' \<and> split_space h' = b # rest)"
      by simp
    with a False show ?thesis by auto
  qed
qed

lemma split_space_head:
  "split_space h = b # rest \<Longrightarrow> CHR '' '' \<notin> set b \<and> (h = b \<or> (\<exists>h'. h = b @ CHR '' '' # h'))"
proof (induction h arbitrary: b rest)
  case Nil
  then show ?case by simp
next
  case (Cons c cs)
  show ?case
  proof (cases "c = CHR '' ''")
    case True
    with Cons.prems show ?thesis by auto
  next
    case False
    with Cons.prems split_space_nonempty [of cs]
    obtain p ps where sp: "split_space cs = p # ps" and b: "b = c # p"
      by (auto split: list.splits)
    from Cons.IH [OF sp] b False show ?thesis by auto
  qed
qed

lemma bearer_token_iff:
  "bearer_token h = Some t \<longleftrightarrow>
     t \<noteq> [] \<and> CHR '' '' \<notin> set t \<and> (h = ''Bearer '' @ t \<or> (\<exists>more. h = ''Bearer '' @ t @ CHR '' '' # more))"
proof
  assume "bearer_token h = Some t"
  then obtain rest where sp: "split_space h = ''Bearer'' # t # rest" and t: "t \<noteq> []"
    by (auto simp: bearer_token_def split: list.splits if_splits)
  from split_space_decomp [OF sp] obtain h' where h: "h = ''Bearer'' @ CHR '' '' # h'" and sp': "split_space h' = t # rest"
    by blast
  from split_space_head [OF sp'] have "CHR '' '' \<notin> set t \<and> (h' = t \<or> (\<exists>m. h' = t @ CHR '' '' # m))" .
  with h t show "t \<noteq> [] \<and> CHR '' '' \<notin> set t \<and> (h = ''Bearer '' @ t \<or> (\<exists>more. h = ''Bearer '' @ t @ CHR '' '' # more))"
    by auto
next
  assume r: "t \<noteq> [] \<and> CHR '' '' \<notin> set t \<and> (h = ''Bearer '' @ t \<or> (\<exists>more. h = ''Bearer '' @ t @ CHR '' '' # more))"
  have b: "CHR '' '' \<notin> set ''Bearer''" by simp
  from r consider "h = ''Bearer'' @ CHR '' '' # t" | more where "h = ''Bearer'' @ CHR '' '' # (t @ CHR '' '' # more)"
    by auto
  then show "bearer_token h = Some t"
  proof cases
    case 1
    then have "split_space h = ''Bearer'' # split_space t" using split_space_append [OF b] by simp
    with r show ?thesis by (simp add: bearer_token_def split_space_no_space)
  next
    case 2
    then have "split_space h = ''Bearer'' # split_space (t @ CHR '' '' # more)" using split_space_append [OF b] by simp
    also have "split_space (t @ CHR '' '' # more) = t # split_space more" using r split_space_append by blast
    finally show ?thesis using r split_space_nonempty [of more]
      by (cases "split_space more") (auto simp: bearer_token_def)
  qed
qed

text \<open>
  What \<open>formatResponse\<close> sends for a failure: the status, the content type and the
  envelope, field by field.
\<close>

lemma formatResponse_sends:
  "res_status (formatResponse e c dat msg format) = c
   \<and> res_contentType (formatResponse e c dat msg format)
       = (if format = JStr ''xml'' then ''application/xml'' else ''application/json'')
   \<and> (format \<noteq> JStr ''xml'' \<longrightarrow>
        res_body (formatResponse e c dat (Some (m # ms)) format)
          = JsonBody \<lparr> success = (200 \<le> c \<and> c < 300), code = c, message = m # ms,
                       data = js_or dat JNull, timestamp = clock e \<rparr>)"
  by (simp add: formatResponse_def response_object_def Let_def)

lemma formatResponse_rejection:
  assumes "msg \<noteq> []" and "\<not> (200 \<le> c \<and> c < 300)" and "abs c < 1000"
  shows "formatResponse e c JNull (Some msg) (query_format req) = rejection e req c msg"
proof -
  from assms(2) have s: "(200 \<le> c \<and> c < 300) = False" by simp
  from assms(3) have n: "abs c < 1000000000000000000000" by simp
  from assms(1) show ?thesis
    by (simp add: formatResponse_def response_object_def generateXML_def envelope_object_def
          js_or_def Let_def s n del: show_nat.simps)
qed

text \<open>
  Claim C1, as the spec has it: a request with no Authorization header is answered 401
  with the message "no token provided". The gate answers 401, and the message it sends
  is the program's own, in Spanish; a header whose value is empty is answered in the
  same way, as a missing header and not as a badly formed one.
\<close>

theorem missing_token_message:
  "authenticate example_env example_db example_request
     = Halt \<lparr> res_status = 401, res_contentType = ''application/json'',
              res_body = JsonBody \<lparr> success = False, code = 401, message = NO_TOKEN,
                data = JNull, timestamp = ''2024-01-01T00:00:00.000Z'' \<rparr> \<rparr>
   \<and> NO_TOKEN \<noteq> ''no token provided''
   \<and> authenticate example_env example_db (example_request\<lparr> authorization := Some [] \<rparr>)
     = Halt \<lparr> res_status = 401, res_contentType = ''application/json'',
              res_body = JsonBody \<lparr> success = False, code = 401, message = NO_TOKEN,
                data = JNull, timestamp = ''2024-01-01T00:00:00.000Z'' \<rparr> \<rparr>
   \<and> NO_TOKEN \<noteq> BAD_FORMAT"
  by (simp add: authenticate_def authenticate_try_def formatResponse_def response_object_def
        query_format_def field_def js_or_def example_env_def example_request_def
        oacute_def aacute_def Let_def)

text \<open>
  Claim C1, amended: the gate applies its checks in a fixed order and the first that
  fails decides the response, which is sent through the formatter with the status, the
  code and the message given here. No Authorization header, or an empty one: 401,
  "No se proporciono token de autenticacion". A header that is not \<open>Bearer\<close>, a space
  and a token: 401, "Formato de token invalido". A token the codec rejects: 401,
  "Token invalido o expirado". A subject id with no stored user, or with an inactive
  one: 401, "Usuario no encontrado o inactivo". Otherwise the stored identity is
  attached and the next handler runs. An exception on the way (the lookup is the one
  step that can throw): 500, "Error en autenticacion". (The messages carry their
  accents in the program, as in the constants above.)
\<close>

theorem authenticate_order:
  "(authorization req = None \<or> authorization req = Some [] \<longrightarrow>
      authenticate e d req = Halt (rejection e req 401 NO_TOKEN))
 \<and> (authorization req = Some h \<and> h \<noteq> [] \<and> bearer_token h = None \<longrightarrow>
      authenticate e d req = Halt (rejection e req 401 BAD_FORMAT))
 \<and> (authorization req = Some h \<and> h \<noteq> [] \<and> bearer_token h = Some t
      \<and> \<not> truthy (verifyToken e t) \<longrightarrow>
      authenticate e d req = Halt (rejection e req 401 BAD_TOKEN))
 \<and> (authorization req = Some h \<and> h \<noteq> [] \<and> bearer_token h = Some t
      \<and> truthy (verifyToken e t)
      \<and> User_findByPk e d (get_prop (verifyToken e t) ''id'') = Inr None \<longrightarrow>
      authenticate e d req = Halt (rejection e req 401 NO_USER))
 \<and> (authorization req = Some h \<and> h \<noteq> [] \<and> bearer_token h = Some t
      \<and> truthy (verifyToken e t)
      \<and> User_findByPk e d (get_prop (verifyToken e t) ''id'') = Inr (Some u)
      \<and> \<not> u_active u \<longrightarrow>
      authenticate e d req = Halt (rejection e req 401 NO_USER))
 \<and> (authorization req = Some h \<and> h \<noteq> [] \<and> bearer_token h = Some t
      \<and> truthy (verifyToken e t)
      \<and> User_findByPk e d (get_prop (verifyToken e t) ''id'') = Inr (Some u)
      \<and> u_active u \<longrightarrow>
      authenticate e d req
        = Next (req\<lparr> user := Some \<lparr> ident_id = u_id u, ident_email = u_email u,
                                     ident_role = u_role u \<rparr> \<rparr>))
 \<and> (authorization req = Some h \<and> h \<noteq> [] \<and> bearer_token h = Some t
      \<and> truthy (verifyToken e t)
      \<and> User_findByPk e d (get_prop (verifyToken e t) ''id'') = Inl err \<longrightarrow>
      authenticate e d req = Halt (rejection e req 500 AUTH_ERROR))"
proof -
  have c: "(authorization req = None \<or> authorization req = Some [] \<longrightarrow>
      authenticate e d req = Halt (formatResponse e 401 JNull (Some NO_TOKEN) (query_format req)))
 \<and> (authorization req = Some h \<and> h \<noteq> [] \<and> bearer_token h = None \<longrightarrow>
      authenticate e d req = Halt (formatResponse e 401 JNull (Some BAD_FORMAT) (query_format req)))
 \<and> (authorization req = Some h \<and> h \<noteq> [] \<and> bearer_token h = Some t
      \<and> \<not> truthy (verifyToken e t) \<longrightarrow>
      authenticate e d req = Halt (formatResponse e 401 JNull (Some BAD_TOKEN) (query_format req)))
 \<and> (authorization req = Some h \<and> h \<noteq> [] \<and> bearer_token h = Some t
      \<and> truthy (verifyToken e t)
      \<and> User_findByPk e d (get_prop (verifyToken e t) ''id'') = Inr None \<longrightarrow>
      authenticate e d req = Halt (formatResponse e 401 JNull (Some NO_USER) (query_format req)))
 \<and> (authorization req = Some h \<and> h \<noteq> [] \<and> bearer_token h = Some t
      \<and> truthy (verifyToken e t)
      \<and> User_findByPk e d (get_prop (verifyToken e t) ''id'') = Inr (Some u)
      \<and> \<not> u_active u \<longrightarrow>
      authenticate e d req = Halt (formatResponse e 401 JNull (Some NO_USER) (query_format req)))
 \<and> (authorization req = Some h \<and> h \<noteq> [] \<and> bearer_token h = Some t
      \<and> truthy (verifyToken e t)
      \<and> User_findByPk e d (get_prop (verifyToken e t) ''id'') = Inr (Some u)
      \<and> u_active u \<longrightarrow>
      authenticate e d req
        = Next (req\<lparr> user := Some \<lparr> ident_id = u_id u, ident_email = u_email u,
                                     ident_role = u_role u \<rparr> \<rparr>))
 \<and> (authorization req = Some h \<and> h \<noteq> [] \<and> bearer_token h = Some t
      \<and> truthy (verifyToken e t)
      \<and> User_findByPk e d (get_prop (verifyToken e t) ''id'') = Inl err \<longrightarrow>
      authenticate e d req = Halt (formatResponse e 500 JNull (Some AUTH_ERROR) (query_format req)))"
    by (auto simp: authenticate_def authenticate_try_def bearer_token_def Let_def
          split: list.splits if_splits)
  have n1: "formatResponse e 401 JNull (Some NO_TOKEN) (query_format req)
      = rejection e req 401 NO_TOKEN"
    by (rule formatResponse_rejection) simp_all
  have n2: "formatResponse e 401 JNull (Some BAD_FORMAT) (query_format req)
      = rejection e req 401 BAD_FORMAT"
    by (rule formatResponse_rejection) simp_all
  have n3: "formatResponse e 401 JNull (Some BAD_TOKEN) (query_format req)
      = rejection e req 401 BAD_TOKEN"
    by (rule formatResponse_rejection) simp_all
  have n4: "formatResponse e 401 JNull (Some NO_USER) (query_format req)
      = rejection e req 401 NO_USER"
    by (rule formatResponse_rejection) simp_all
  have n5: "formatResponse e 500 JNull (Some AUTH_ERROR) (query_format req)
      = rejection e req 500 AUTH_ERROR"
    by (rule formatResponse_rejection) simp_all
  from c show ?thesis unfolding n1 n2 n3 n4 n5 .
qed

theorem authenticate_order_witness:
  "authenticate example_env example_db example_request
     = Halt \<lparr> res_status = 401, res_contentType = ''application/json'',
              res_body = JsonBody \<lparr> success = False, code = 401, message = NO_TOKEN,
                data = JNull, timestamp = ''2024-01-01T00:00:00.000Z'' \<rparr> \<rparr>
 \<and> authenticate example_env example_db
      (example_request\<lparr> authorization := Some ''Basic stale'', query := [(''format'', JStr ''xml'')] \<rparr>)
     = Halt \<lparr> res_status = 401, res_contentType = ''application/xml'',
              res_body = XmlBody (''response'',
                XElems [(''success'', XText ''false''), (''code'', XText ''401''),
                        (''message'', XText BAD_FORMAT), (''data'', XText ''null''),
                        (''timestamp'', XText ''2024-01-01T00:00:00.000Z'')]) \<rparr>
 \<and> authenticate example_env example_db (example_request\<lparr> authorization := Some ''Bearer forged'' \<rparr>)
     = Halt \<lparr> res_status = 401, res_contentType = ''application/json'',
              res_body = JsonBody \<lparr> success = False, code = 401, message = BAD_TOKEN,
                data = JNull, timestamp = ''2024-01-01T00:00:00.000Z'' \<rparr> \<rparr>
 \<and> authenticate example_env example_db (example_request\<lparr> authorization := Some ''Bearer ghost'' \<rparr>)
     = Halt \<lparr> res_status = 401, res_contentType = ''application/json'',
              res_body = JsonBody \<lparr> success = False, code = 401, message = NO_USER,
                data = JNull, timestamp = ''2024-01-01T00:00:00.000Z'' \<rparr> \<rparr>
 \<and> authenticate example_env example_db (example_request\<lparr> authorization := Some ''Bearer carol'' \<rparr>)
     = Halt \<lparr> res_status = 401, res_contentType = ''application/json'',
              res_body = JsonBody \<lparr> success = False, code = 401, message = NO_USER,
                data = JNull, timestamp = ''2024-01-01T00:00:00.000Z'' \<rparr> \<rparr>
 \<and> authenticate example_env example_db (example_request\<lparr> authorization := Some ''Bearer stale'' \<rparr>)
     = Next (example_request\<lparr> authorization := Some ''Bearer stale'',
          user := Some \<lparr> ident_id = 1, ident_email = ''alice@example.com'', ident_role = ''user'' \<rparr> \<rparr>)
 \<and> authenticate example_env example_db (example_request\<lparr> authorization := Some ''Bearer odd'' \<rparr>)
     = Halt \<lparr> res_status = 500, res_contentType = ''application/json'',
              res_body = JsonBody \<lparr> success = False, code = 500, message = AUTH_ERROR,
                data = JNull, timestamp = ''2024-01-01T00:00:00.000Z'' \<rparr> \<rparr>"
  using authenticate_order [where req = example_request and e = example_env and d = example_db]
    authenticate_order [where req = "example_request\<lparr> authorization := Some ''Basic stale'',
        query := [(''format'', JStr ''xml'')] \<rparr>"
      and h = "''Basic stale''" and e = example_env and d = example_db]
    authenticate_order [where req = "example_request\<lparr> authorization := Some ''Bearer forged'' \<rparr>"
      and h = "''Bearer forged''" and t = "''forged''" and e = example_env and d = example_db]
    authenticate_order [where req = "example_request\<lparr> authorization := Some ''Bearer ghost'' \<rparr>"
      and h = "''Bearer ghost''" and t = "''ghost''" and e = example_env and d = example_db]
    authenticate_order [where req = "example_request\<lparr> authorization := Some ''Bearer carol'' \<rparr>"
      and h = "''Bearer carol''" and t = "''carol''" and e = example_env and d = example_db
      and u = carol]
    authenticate_order [where req = "example_request\<lparr> authorization := Some ''Bearer stale'' \<rparr>"
      and h = "''Bearer stale''" and t = "''stale''" and e = example_env and d = example_db
      and u = alice]
    authenticate_order [where req = "example_request\<lparr> authorization := Some ''Bearer odd'' \<rparr>"
      and h = "''Bearer odd''" and t = "''odd''" and e = example_env and d = example_db
      and err = "Error ''Error'' [''Argument passed to findByPk is invalid'']"]
  by (simp add: fixtures bearer_token_def verifyToken_def get_prop_def field_def
        User_findByPk_def findByPk_def pk_of_def query_format_def js_or_def show_int_def Let_def)


section \<open>Authentication Gate: the identity comes from the store\<close>

lemma findByPk_member: "findByPk e d key rows v = Inr (Some r) \<Longrightarrow> r \<in> set rows"
  by (auto simp: findByPk_def Let_def find_Some_iff split: jsval.splits if_splits option.splits)

lemma authenticate_accepts:
  assumes "authorization req = Some h" and "bearer_token h = Some t"
    and "truthy (verifyToken e t)"
    and "User_findByPk e d (get_prop (verifyToken e t) ''id'') = Inr (Some u)" and "u_active u"
  shows "authenticate e d req
    = Next (req\<lparr> user := Some \<lparr> ident_id = u_id u, ident_email = u_email u,
                                 ident_role = u_role u \<rparr> \<rparr>)"
  using assms
  by (auto simp: authenticate_def authenticate_try_def bearer_token_def Let_def
        split: list.splits if_splits)

lemma gate_reads_user_only:
  "user r1 = user r2 \<Longrightarrow> query r1 = query r2 \<Longrightarrow> params r1 = params r2 \<Longrightarrow> body r1 = body r2 \<Longrightarrow>
   outcome (isProjectOwnerOrAdmin e d r1) = outcome (isProjectOwnerOrAdmin e d r2)"
  by (simp add: isProjectOwnerOrAdmin_def isProjectOwnerOrAdmin_try_def outcome_def Let_def
        query_format_def param_def split: sum.splits option.splits)

text \<open>
  Claim C2: when the token verifies and its subject id resolves to an active stored
  user, the identity attached to the request is that row's id, email and role, not the
  token's claims. So two tokens with the same subject id, whatever role or email they
  carry, attach the same identity, and the owner-or-admin gate that runs next decides
  the same.
\<close>

theorem identity_from_store:
  assumes "authorization req1 = Some h1" and "bearer_token h1 = Some t1"
    and "req2 = req1\<lparr> authorization := Some h2 \<rparr>" and "bearer_token h2 = Some t2"
    and "truthy (verifyToken e t1)" and "truthy (verifyToken e t2)"
    and "get_prop (verifyToken e t1) ''id'' = get_prop (verifyToken e t2) ''id''"
    and "User_findByPk e d (get_prop (verifyToken e t1) ''id'') = Inr (Some u)" and "u_active u"
  shows "u \<in> set (users d)
    \<and> authenticate e d req1 = Next (req1\<lparr> user := Some \<lparr> ident_id = u_id u, ident_email = u_email u, ident_role = u_role u \<rparr> \<rparr>)
    \<and> authenticate e d req2 = Next (req2\<lparr> user := Some \<lparr> ident_id = u_id u, ident_email = u_email u, ident_role = u_role u \<rparr> \<rparr>)
    \<and> outcome (authenticate e d req2) = outcome (authenticate e d req1)
    \<and> outcome (chain (authenticate e d) (isProjectOwnerOrAdmin e d) req2)
        = outcome (chain (authenticate e d) (isProjectOwnerOrAdmin e d) req1)"
proof -
  have m: "u \<in> set (users d)"
    using assms(8) by (auto simp: User_findByPk_def dest: findByPk_member)
  have a1: "authenticate e d req1 = Next (req1\<lparr> user := Some \<lparr> ident_id = u_id u, ident_email = u_email u, ident_role = u_role u \<rparr> \<rparr>)"
    using authenticate_accepts [where req = req1 and h = h1 and t = t1 and e = e and d = d and u = u]
      assms
    by simp
  have a2: "authenticate e d req2 = Next (req2\<lparr> user := Some \<lparr> ident_id = u_id u, ident_email = u_email u, ident_role = u_role u \<rparr> \<rparr>)"
    using authenticate_accepts [where req = req2 and h = h2 and t = t2 and e = e and d = d and u = u]
      assms
    by simp
  have o: "outcome (authenticate e d req2) = outcome (authenticate e d req1)"
    using a1 a2 by (simp add: outcome_def assms(3))
  have c: "outcome (chain (authenticate e d) (isProjectOwnerOrAdmin e d) req2)
        = outcome (chain (authenticate e d) (isProjectOwnerOrAdmin e d) req1)"
    using a1 a2 by (simp add: chain_def assms(3) gate_reads_user_only)
  from m a1 a2 o c show ?thesis by simp
qed


theorem identity_from_store_witness:
  "alice \<in> set (users example_db)
   \<and> authenticate example_env example_db (example_request\<lparr> authorization := Some ''Bearer stale'' \<rparr>)
       = Next (example_request\<lparr> authorization := Some ''Bearer stale'',
            user := Some \<lparr> ident_id = 1, ident_email = ''alice@example.com'', ident_role = ''user'' \<rparr> \<rparr>)
   \<and> authenticate example_env example_db (example_request\<lparr> authorization := Some ''Bearer fresh'' \<rparr>)
       = Next (example_request\<lparr> authorization := Some ''Bearer fresh'',
            user := Some \<lparr> ident_id = 1, ident_email = ''alice@example.com'', ident_role = ''user'' \<rparr> \<rparr>)
   \<and> get_prop (verifyToken example_env ''stale'') ''role'' = JStr ''admin''
   \<and> get_prop (verifyToken example_env ''fresh'') ''role'' = JStr ''user''
   \<and> outcome (chain (authenticate example_env example_db) (isProjectOwnerOrAdmin example_env example_db)
         (example_request\<lparr> authorization := Some ''Bearer fresh'', params := [(''id'', ''11'')] \<rparr>))
       = outcome (chain (authenticate example_env example_db) (isProjectOwnerOrAdmin example_env example_db)
         (example_request\<lparr> authorization := Some ''Bearer stale'', params := [(''id'', ''11'')] \<rparr>))"
  using identity_from_store [where ?req1.0 = "example_request\<lparr> authorization := Some ''Bearer stale'' \<rparr>"
      and ?h1.0 = "''Bearer stale''" and ?t1.0 = "''stale''"
      and ?req2.0 = "example_request\<lparr> authorization := Some ''Bearer fresh'' \<rparr>"
      and ?h2.0 = "''Bearer fresh''" and ?t2.0 = "''fresh''"
      and e = example_env and d = example_db and u = alice]
    identity_from_store [where ?req1.0 = "example_request\<lparr> authorization := Some ''Bearer stale'', params := [(''id'', ''11'')] \<rparr>"
      and ?h1.0 = "''Bearer stale''" and ?t1.0 = "''stale''"
      and ?req2.0 = "example_request\<lparr> authorization := Some ''Bearer fresh'', params := [(''id'', ''11'')] \<rparr>"
      and ?h2.0 = "''Bearer fresh''" and ?t2.0 = "''fresh''"
      and e = example_env and d = example_db and u = alice]
  by (simp add: fixtures bearer_token_def verifyToken_def get_prop_def field_def
        User_findByPk_def findByPk_def pk_of_def Let_def)


section \<open>Authorization Gate: owner or administrator\<close>

text \<open>
  Claim C3, as the spec has it: a request from which no project id can be read is
  answered 400 with the message "project id not provided". The gate answers 400, and
  the message it sends is the program's own, in Spanish.
\<close>

theorem missing_project_id_message:
  "resolved_project_id as_alice = JUndefined
   \<and> isProjectOwnerOrAdmin example_env example_db as_alice
     = Halt \<lparr> res_status = 400, res_contentType = ''application/json'',
              res_body = JsonBody \<lparr> success = False, code = 400, message = NO_PROJECT_ID,
                data = JNull, timestamp = ''2024-01-01T00:00:00.000Z'' \<rparr> \<rparr>
   \<and> NO_PROJECT_ID \<noteq> ''project id not provided''"
  by (simp add: isProjectOwnerOrAdmin_def isProjectOwnerOrAdmin_try_def formatResponse_def
        response_object_def query_format_def param_def field_def js_or_def example_env_def
        example_request_def as_alice_def Let_def)

text \<open>
  Claim C3, amended: for an authenticated request the gate, through the formatter and
  with the status, the code and the message given here, answers 400
  "ID de proyecto no proporcionado" when no project id can be read from the route
  parameters or the body; else 404 "Proyecto no encontrado" when no project has that
  id; else attaches the loaded project and goes on when its creator is the caller or
  the caller's role is admin; else answers 403
  "No tiene permiso para modificar este proyecto"; and an exception on the way (the
  lookup is the step that can throw) gives 500 "Error al verificar permisos".
\<close>

theorem owner_or_admin_gate:
  "user req = Some u \<Longrightarrow>
   (\<not> truthy (resolved_project_id req) \<longrightarrow>
      isProjectOwnerOrAdmin e d req = Halt (rejection e req 400 NO_PROJECT_ID))
 \<and> (truthy (resolved_project_id req)
      \<and> Project_findByPk e d (resolved_project_id req) = Inr None \<longrightarrow>
      isProjectOwnerOrAdmin e d req = Halt (rejection e req 404 NO_PROJECT))
 \<and> (truthy (resolved_project_id req)
      \<and> Project_findByPk e d (resolved_project_id req) = Inr (Some p)
      \<and> (p_createdBy p = ident_id u \<or> ident_role u = ''admin'') \<longrightarrow>
      isProjectOwnerOrAdmin e d req = Next (req\<lparr> project := Some p \<rparr>))
 \<and> (truthy (resolved_project_id req)
      \<and> Project_findByPk e d (resolved_project_id req) = Inr (Some p)
      \<and> p_createdBy p \<noteq> ident_id u \<and> ident_role u \<noteq> ''admin'' \<longrightarrow>
      isProjectOwnerOrAdmin e d req = Halt (rejection e req 403 NOT_ALLOWED))
 \<and> (truthy (resolved_project_id req)
      \<and> Project_findByPk e d (resolved_project_id req) = Inl err \<longrightarrow>
      isProjectOwnerOrAdmin e d req = Halt (rejection e req 500 PERMISSION_ERROR))"
proof -
  assume u: "user req = Some u"
  have r: "\<And>c msg. msg \<noteq> [] \<Longrightarrow> c = 400 \<or> c = 403 \<or> c = 404 \<or> c = 500 \<Longrightarrow>
      formatResponse e c JNull (Some msg) (query_format req) = rejection e req c msg"
    by (rule formatResponse_rejection) auto
  show ?thesis
    using u
    by (simp add: isProjectOwnerOrAdmin_def isProjectOwnerOrAdmin_try_def owner_or_admin_def
          r Let_def del: show_nat.simps)
qed

theorem owner_or_admin_gate_witness:
  "isProjectOwnerOrAdmin example_env example_db as_alice
     = Halt \<lparr> res_status = 400, res_contentType = ''application/json'',
              res_body = JsonBody \<lparr> success = False, code = 400, message = NO_PROJECT_ID,
                data = JNull, timestamp = ''2024-01-01T00:00:00.000Z'' \<rparr> \<rparr>
 \<and> isProjectOwnerOrAdmin example_env example_db (as_alice\<lparr> body := [(''projectId'', JNum 77)] \<rparr>)
     = Halt \<lparr> res_status = 404, res_contentType = ''application/json'',
              res_body = JsonBody \<lparr> success = False, code = 404, message = NO_PROJECT,
                data = JNull, timestamp = ''2024-01-01T00:00:00.000Z'' \<rparr> \<rparr>
 \<and> isProjectOwnerOrAdmin example_env example_db (as_alice\<lparr> params := [(''id'', ''10'')] \<rparr>)
     = Next (as_alice\<lparr> params := [(''id'', ''10'')], project := Some alpha \<rparr>)
 \<and> isProjectOwnerOrAdmin example_env example_db (as_bob\<lparr> params := [(''id'', ''10'')] \<rparr>)
     = Next (as_bob\<lparr> params := [(''id'', ''10'')], project := Some alpha \<rparr>)
 \<and> isProjectOwnerOrAdmin example_env example_db
      (as_alice\<lparr> params := [(''id'', ''11'')], query := [(''format'', JStr ''xml'')] \<rparr>)
     = Halt \<lparr> res_status = 403, res_contentType = ''application/xml'',
              res_body = XmlBody (''response'',
                XElems [(''success'', XText ''false''), (''code'', XText ''403''),
                        (''message'', XText NOT_ALLOWED), (''data'', XText ''null''),
                        (''timestamp'', XText ''2024-01-01T00:00:00.000Z'')]) \<rparr>
 \<and> isProjectOwnerOrAdmin example_env example_db (as_alice\<lparr> body := [(''projectId'', JBool True)] \<rparr>)
     = Halt \<lparr> res_status = 500, res_contentType = ''application/json'',
              res_body = JsonBody \<lparr> success = False, code = 500, message = PERMISSION_ERROR,
                data = JNull, timestamp = ''2024-01-01T00:00:00.000Z'' \<rparr> \<rparr>"
  using owner_or_admin_gate [where req = as_alice and e = example_env and d = example_db]
    owner_or_admin_gate [where req = "as_alice\<lparr> body := [(''projectId'', JNum 77)] \<rparr>"
      and e = example_env and d = example_db]
    owner_or_admin_gate [where req = "as_alice\<lparr> params := [(''id'', ''10'')] \<rparr>"
      and e = example_env and d = example_db and p = alpha]
    owner_or_admin_gate [where req = "as_bob\<lparr> params := [(''id'', ''10'')] \<rparr>"
      and e = example_env and d = example_db and p = alpha]
    owner_or_admin_gate [where req = "as_alice\<lparr> params := [(''id'', ''11'')],
        query := [(''format'', JStr ''xml'')] \<rparr>"
      and e = example_env and d = example_db and p = beta]
    owner_or_admin_gate [where req = "as_alice\<lparr> body := [(''projectId'', JBool True)] \<rparr>"
      and e = example_env and d = example_db
      and err = "Error ''Error'' [''Argument passed to findByPk is invalid'']"]
  by (simp add: fixtures as_alice_def as_bob_def param_def field_def js_or_def
        Project_findByPk_def findByPk_def pk_of_def query_format_def show_int_def Let_def)


section \<open>Deleting a project\<close>

lemma destroy_tasks:
  "Project_destroy d p = Inr d' \<Longrightarrow>
     tasks d' = filter (\<lambda>t. t_projectId t \<noteq> p_id p) (tasks d)
     \<and> projects d' = filter (\<lambda>q. p_id q \<noteq> p_id p) (projects d)
     \<and> users d' = users d"
  by (auto simp: Project_destroy_def split: if_splits)

lemma deleteProject_success:
  assumes "deleteProject e d req = (Reply 200 x m, d')"
  shows "\<exists>p. Project_findByPk e d (param req ''id'') = Inr (Some p) \<and> Project_destroy d p = Inr d'"
  using assms
  by (auto simp: deleteProject_def deleteProject_try_def Let_def
        split: sum.splits option.splits if_splits)

text \<open>
  Claim C4: after a successful delete-project operation (the reply is 200) no task
  whose \<open>projectId\<close> is the deleted project's id remains in storage: the tasks left are
  the others, the project's row is gone, and if every task referred to a stored
  project before, every task does so afterwards.
\<close>

theorem delete_cascades:
  assumes "deleteProject e d req = (Reply 200 x m, d')"
  shows "\<exists>p. Project_findByPk e d (param req ''id'') = Inr (Some p) \<and> p \<in> set (projects d)
      \<and> tasks d' = filter (\<lambda>t. t_projectId t \<noteq> p_id p) (tasks d)
      \<and> (\<forall>t \<in> set (tasks d'). t_projectId t \<noteq> p_id p)
      \<and> (\<forall>q \<in> set (projects d'). p_id q \<noteq> p_id p)
      \<and> ((\<forall>t \<in> set (tasks d). \<exists>q \<in> set (projects d). p_id q = t_projectId t) \<longrightarrow>
          (\<forall>t \<in> set (tasks d'). \<exists>q \<in> set (projects d'). p_id q = t_projectId t))"
proof -
  from deleteProject_success [OF assms] obtain p
    where f: "Project_findByPk e d (param req ''id'') = Inr (Some p)"
      and k: "Project_destroy d p = Inr d'"
    by blast
  from f have m: "p \<in> set (projects d)"
    by (auto simp: Project_findByPk_def dest: findByPk_member)
  from destroy_tasks [OF k]
  have t: "tasks d' = filter (\<lambda>t. t_projectId t \<noteq> p_id p) (tasks d)"
    and q: "projects d' = filter (\<lambda>q. p_id q \<noteq> p_id p) (projects d)"
    by simp_all
  have i: "(\<forall>t \<in> set (tasks d). \<exists>q \<in> set (projects d). p_id q = t_projectId t) \<longrightarrow>
          (\<forall>t \<in> set (tasks d'). \<exists>q \<in> set (projects d'). p_id q = t_projectId t)"
  proof (intro impI ballI)
    fix t
    assume a: "\<forall>t \<in> set (tasks d). \<exists>q \<in> set (projects d). p_id q = t_projectId t"
      and "t \<in> set (tasks d')"
    then have "t \<in> set (tasks d)" and n: "t_projectId t \<noteq> p_id p"
      by (simp_all add: t)
    with a obtain q where "q \<in> set (projects d)" and "p_id q = t_projectId t"
      by blast
    with n show "\<exists>q \<in> set (projects d'). p_id q = t_projectId t"
      by (auto simp: q)
  qed
  from f m t q i show ?thesis by auto
qed


theorem delete_cascades_witness:
  "deleteProject example_env example_db (as_alice\<lparr> params := [(''id'', ''10'')] \<rparr>)
     = (Reply 200 (Some (JObj [(''id'', JStr ''10'')])) (Some ''Proyecto eliminado correctamente''),
        example_db\<lparr> projects := [beta], tasks := [task_beta] \<rparr>)
   \<and> map t_projectId (tasks example_db) = [10, 10, 10, 11]
   \<and> map t_projectId (tasks (snd (deleteProject example_env example_db
        (as_alice\<lparr> params := [(''id'', ''10'')] \<rparr>)))) = [11]"
  using delete_cascades [where e = example_env and d = example_db
      and req = "as_alice\<lparr> params := [(''id'', ''10'')] \<rparr>"
      and x = "Some (JObj [(''id'', JStr ''10'')])" and m = "Some ''Proyecto eliminado correctamente''"
      and d' = "example_db\<lparr> projects := [beta], tasks := [task_beta] \<rparr>"]
  by (simp add: fixtures as_alice_def deleteProject_def deleteProject_try_def param_def
        Project_findByPk_def findByPk_def pk_of_def Project_destroy_def Let_def)



section \<open>Listing projects\<close>

text \<open>
  What the handler asks of the store: for an administrator the \<open>where\<close> object holds
  \<open>createdBy: undefined\<close>, which the ORM rejects, and the \<open>catch\<close> block answers 500; for
  any other caller the projects listed are the caller's own, under the filters.
\<close>

lemma admin_where_rejected:
  "ident_role u = ''admin'' \<Longrightarrow>
     findAll d (project_column e) le rows (getProjects_where e req u)
       = Inl (Error ''Error'' [''WHERE parameter has invalid value''])"
  by (simp add: findAll_def getProjects_where_def project_column_def where_int_def Let_def)

lemma getProjects_admin:
  "user req = Some u \<Longrightarrow> ident_role u = ''admin'' \<Longrightarrow>
     getProjects e d req = Reply 500 None (Some ''Error al obtener proyectos'')"
  by (simp add: getProjects_def getProjects_try_def admin_where_rejected)

lemma getProjects_owner:
  assumes "user req = Some u" and "ident_role u \<noteq> ''admin''" and "online d"
  shows "getProjects e d req =
     Reply 200
       (Some (map (project_view d) (order_by project_order
          (filter (\<lambda>p. p_createdBy p = ident_id u
              \<and> (field (query req) ''status'' \<in> {JStr ''active'', JStr ''completed'', JStr ''canceled''}
                   \<longrightarrow> JStr (p_status p) = field (query req) ''status'')
              \<and> (truthy (field (query req) ''search'')
                   \<longrightarrow> like (''%'' @ String e (field (query req) ''search'') @ ''%'') (p_name p)))
            (projects d)))))
       (Some ''Proyectos obtenidos correctamente'')"
proof -
  let ?w = "getProjects_where e req u"
  have ok: "\<not> list_ex (\<lambda>c. project_column e c = None) ?w"
    using assms(2)
    by (auto simp: getProjects_where_def project_column_def where_int_def where_text_def Let_def)
  have m: "meets (project_column e) ?w = (\<lambda>p. p_createdBy p = ident_id u
              \<and> (field (query req) ''status'' \<in> {JStr ''active'', JStr ''completed'', JStr ''canceled''}
                   \<longrightarrow> JStr (p_status p) = field (query req) ''status'')
              \<and> (truthy (field (query req) ''search'')
                   \<longrightarrow> like (''%'' @ String e (field (query req) ''search'') @ ''%'') (p_name p)))"
    using assms(2)
    by (auto simp: fun_eq_iff meets_def getProjects_where_def project_column_def where_int_def
          where_text_def Let_def)
  show ?thesis
    using assms ok by (simp add: getProjects_def getProjects_try_def findAll_def m)
qed

text \<open>
  Claim C5 says that an administrator receives every project. Bob is an administrator
  and two projects are stored; his list-projects request is answered 500.
\<close>

theorem admin_list_projects:
  "ident_role \<lparr> ident_id = 2, ident_email = ''bob@example.com'', ident_role = ''admin'' \<rparr> = ''admin''
   \<and> getProjects_where example_env as_bob \<lparr> ident_id = 2, ident_email = ''bob@example.com'', ident_role = ''admin'' \<rparr>
       = [(''createdBy'', Eq JUndefined)]
   \<and> map p_name (projects example_db) = [''Alpha'', ''Beta'']
   \<and> getProjects example_env example_db as_bob = Reply 500 None (Some ''Error al obtener proyectos'')"
  by (simp add: getProjects_admin fixtures as_bob_def getProjects_where_def field_def)


section \<open>Listing the tasks of a project\<close>

text \<open>
  The order of a listing: by the text of the priority, descending, and within one
  priority newest first.
\<close>

lemma text_less_irrefl: "\<not> text_less a a"
  by (induction a) auto

lemma text_less_trans: "text_less a b \<Longrightarrow> text_less b c \<Longrightarrow> text_less a c"
  by (induction a b arbitrary: c rule: text_less.induct; case_tac c; auto)

lemma of_char_eq: "(of_char x :: nat) = of_char y \<Longrightarrow> x = y"
  by (metis char_of_char)

lemma text_less_total: "a = b \<or> text_less a b \<or> text_less b a"
proof (induction a b rule: text_less.induct)
  case (4 x xs y ys)
  then show ?case using of_char_eq [of x y] by (auto simp: not_less le_less)
qed auto

lemma task_order_total: "task_order a b \<or> task_order b a"
  using text_less_total [of "t_priority a" "t_priority b"]
  by (auto simp: task_order_def)

lemma task_order_trans: "task_order a b \<Longrightarrow> task_order b c \<Longrightarrow> task_order a c"
  using text_less_trans [of "t_priority c" "t_priority b" "t_priority a"]
  by (auto simp: task_order_def)

lemma set_insert_by: "set (insert_by le x xs) = insert x (set xs)"
  by (induction xs) auto

lemma sorted_insert_by:
  assumes total: "\<And>a b. le a b \<or> le b a" and trans: "\<And>a b c. le a b \<Longrightarrow> le b c \<Longrightarrow> le a c"
  shows "sorted_wrt le xs \<Longrightarrow> sorted_wrt le (insert_by le x xs)"
proof (induction xs)
  case Nil
  then show ?case by simp
next
  case (Cons y ys)
  show ?case
  proof (cases "le x y")
    case True
    with Cons.prems trans show ?thesis by auto
  next
    case False
    with total have "le y x" by blast
    with Cons False show ?thesis by (auto simp: set_insert_by)
  qed
qed

lemma sorted_order_by:
  assumes "\<And>a b. le a b \<or> le b a" and "\<And>a b c. le a b \<Longrightarrow> le b c \<Longrightarrow> le a c"
  shows "sorted_wrt le (order_by le xs)"
  unfolding order_by_def
  by (induction xs) (auto intro: sorted_insert_by [OF assms])

lemma set_order_by: "set (order_by le xs) = set xs"
  unfolding order_by_def by (induction xs) (auto simp: set_insert_by)

lemma getProjectTasks_listed:
  assumes "getProjectTasks e d req = Reply 200 (Some listed) m"
  shows "\<exists>found. listed = map (task_view d) found
    \<and> findAll d (task_column e) task_order (tasks d) (getProjectTasks_where req) = Inr found"
  using assms
  by (auto simp: getProjectTasks_def getProjectTasks_try_def
        split: sum.splits option.splits if_splits)

lemma getProjectTasks_order:
  assumes "getProjectTasks e d req = Reply 200 (Some listed) m"
  shows "sorted_wrt (\<lambda>a b. text_less (t_priority (tv_task b)) (t_priority (tv_task a))
            \<or> (t_priority (tv_task a) = t_priority (tv_task b)
                \<and> t_createdAt (tv_task b) \<le> t_createdAt (tv_task a))) listed"
proof -
  from getProjectTasks_listed [OF assms] obtain found
    where l: "listed = map (task_view d) found"
      and f: "findAll d (task_column e) task_order (tasks d) (getProjectTasks_where req) = Inr found"
    by blast
  from f have "found = order_by task_order (filter (meets (task_column e) (getProjectTasks_where req)) (tasks d))"
    by (auto simp: findAll_def split: if_splits)
  then have "sorted_wrt task_order found"
    using sorted_order_by [of task_order, OF task_order_total task_order_trans] by simp
  moreover have "task_order = (\<lambda>a b. text_less (t_priority b) (t_priority a)
            \<or> (t_priority a = t_priority b \<and> t_createdAt b \<le> t_createdAt a))"
    by (simp add: fun_eq_iff task_order_def)
  ultimately show ?thesis
    unfolding l by (simp add: sorted_wrt_map task_view_def)
qed

text \<open>
  Claim C7 says that the tasks come with every high-priority task before every medium
  one and every medium one before every low one. Project Alpha has one task of each
  priority; its owner's list comes in the order medium, low, high: the order of the
  labels as text, descending.
\<close>

theorem tasks_listed_medium_low_high:
  "getProjectTasks example_env example_db (as_alice\<lparr> params := [(''projectId'', ''10'')] \<rparr>)
     = Reply 200 (Some [task_view example_db task_medium, task_view example_db task_low,
                       task_view example_db task_high])
         (Some ''Tareas obtenidas correctamente'')
   \<and> map t_priority [task_medium, task_low, task_high] = [''medium'', ''low'', ''high'']"
  by (simp add: fixtures as_alice_def getProjectTasks_def getProjectTasks_try_def getProjectTasks_where_def
        param_def field_def Project_findByPk_def findByPk_def pk_of_def findAll_def
        task_column_def where_int_def where_text_def meets_def order_by_def task_order_def Let_def)


section \<open>Creating a task for an unknown assignee\<close>

text \<open>
  Claim C8, as the spec has it: every create-task request whose \<open>assignedTo\<close> names no
  user is answered 404. The handler checks the title first: a request with no title is
  answered 400, whatever \<open>assignedTo\<close> is.
\<close>

theorem missing_title_wins:
  "field (body orphan_assignee) ''assignedTo'' = JNum 99
   \<and> User_findByPk example_env example_db (JNum 99) = Inr None
   \<and> createTask example_env example_db orphan_assignee
       = (Reply 400 None (Some TITLE_REQUIRED), example_db)"
  by (simp add: orphan_assignee_def as_alice_def fixtures createTask_def createTask_try_def field_def
        User_findByPk_def findByPk_def pk_of_def Let_def)

text \<open>
  Claim C8, amended: for every create-task request whose \<open>assignedTo\<close> is a truthy value
  that names no user, no task is persisted (the database is left as it was); and when the
  request has a title, its project exists and the caller is the project's creator or
  an administrator, the answer is 404 with the message for an unknown assignee. The
  checks that come first answer for themselves: 400 without a title, 404 without the
  project, 403 for a caller who is neither its creator nor an administrator.
\<close>

theorem unknown_assignee:
  assumes "truthy (field (body req) ''assignedTo'')"
    and "User_findByPk e d (field (body req) ''assignedTo'') = Inr None"
  shows "snd (createTask e d req) = d
    \<and> (truthy (field (body req) ''title'')
        \<and> Project_findByPk e d (param req ''projectId'') = Inr (Some p)
        \<and> user req = Some u
        \<and> (p_createdBy p = ident_id u \<or> ident_role u = ''admin'') \<longrightarrow>
        createTask e d req = (Reply 404 None (Some NO_ASSIGNEE), d))
    \<and> (\<not> truthy (field (body req) ''title'') \<longrightarrow>
        createTask e d req = (Reply 400 None (Some TITLE_REQUIRED), d))
    \<and> (truthy (field (body req) ''title'')
        \<and> Project_findByPk e d (param req ''projectId'') = Inr None \<longrightarrow>
        createTask e d req = (Reply 404 None (Some NO_PROJECT), d))
    \<and> (truthy (field (body req) ''title'')
        \<and> Project_findByPk e d (param req ''projectId'') = Inr (Some p)
        \<and> user req = Some u
        \<and> p_createdBy p \<noteq> ident_id u \<and> ident_role u \<noteq> ''admin'' \<longrightarrow>
        createTask e d req = (Reply 403 None (Some MAY_NOT_ADD), d))"
  using assms
  by (auto simp: createTask_def createTask_try_def Let_def
        split: sum.splits option.splits prod.splits)

theorem unknown_assignee_witness:
  "createTask example_env example_db
      (orphan_assignee\<lparr> body := [(''title'', JStr ''Test''), (''assignedTo'', JNum 99)] \<rparr>)
     = (Reply 404 None (Some NO_ASSIGNEE), example_db)
   \<and> snd (createTask example_env example_db orphan_assignee) = example_db
   \<and> createTask example_env example_db
      (orphan_assignee\<lparr> params := [(''projectId'', ''11'')],
         body := [(''title'', JStr ''Test''), (''assignedTo'', JNum 99)] \<rparr>)
     = (Reply 403 None (Some MAY_NOT_ADD), example_db)"
  using unknown_assignee [where e = example_env and d = example_db and p = alpha
      and u = "\<lparr> ident_id = 1, ident_email = ''alice@example.com'', ident_role = ''user'' \<rparr>"
      and req = "orphan_assignee\<lparr> body := [(''title'', JStr ''Test''), (''assignedTo'', JNum 99)] \<rparr>"]
    unknown_assignee [where e = example_env and d = example_db and req = orphan_assignee]
    unknown_assignee [where e = example_env and d = example_db and p = beta
      and u = "\<lparr> ident_id = 1, ident_email = ''alice@example.com'', ident_role = ''user'' \<rparr>"
      and req = "orphan_assignee\<lparr> params := [(''projectId'', ''11'')],
         body := [(''title'', JStr ''Test''), (''assignedTo'', JNum 99)] \<rparr>"]
  by (simp add: orphan_assignee_def as_alice_def fixtures field_def param_def
        User_findByPk_def Project_findByPk_def findByPk_def pk_of_def Let_def)


section \<open>Registration and the role\<close>

lemma User_create_row:
  "User_create e d name email password role = Inr (u, d') \<Longrightarrow>
     d' = d\<lparr> users := users d @ [u], user_seq := u_id u \<rparr> \<and> u_role u = role \<and> u_active u"
  by (auto simp: User_create_def Let_def split: sum.splits prod.splits if_splits)

lemma register_try_writes:
  assumes "register_try e d req = Inr (rep, d')"
  shows "d' = d \<or> (\<exists>u. d' = d\<lparr> users := users d @ [u], user_seq := u_id u \<rparr> \<and> reply_status rep = 201
            \<and> u_role u = chosen_role req)"
proof (cases "User_findOne_email e d (field (body req) ''email'')")
  case (Inl err)
  with assms show ?thesis by (simp add: register_try_def Let_def)
next
  case (Inr found)
  show ?thesis
  proof (cases found)
    case (Some existing)
    with Inr assms show ?thesis by (simp add: register_try_def Let_def)
  next
    case None
    show ?thesis
    proof (cases "passwordRegex_test e (field (body req) ''password'')")
      case False
      with None Inr assms show ?thesis by (simp add: register_try_def Let_def)
    next
      case True
      show ?thesis
      proof (cases "User_create e d (field (body req) ''name'') (field (body req) ''email'')
                      (field (body req) ''password'') (chosen_role req)")
        case (Inl err)
        with True None Inr assms show ?thesis by (simp add: register_try_def Let_def)
      next
        case created: (Inr r)
        obtain u d2 where r: "r = (u, d2)" by (cases r)
        from User_create_row [OF created [unfolded r]]
        have "d2 = d\<lparr> users := users d @ [u], user_seq := u_id u \<rparr>" and "u_role u = chosen_role req" by simp_all
        moreover from True None Inr assms created r
        have "d' = d2" and "reply_status rep = 201"
          by (auto simp: register_try_def Let_def reply_status_def)
        ultimately show ?thesis by blast
      qed
    qed
  qed
qed


lemma register_writes:
  "snd (register e d req) = d
    \<or> (\<exists>u. snd (register e d req) = d\<lparr> users := users d @ [u], user_seq := u_id u \<rparr>
          \<and> reply_status (fst (register e d req)) = 201
          \<and> u_role u = chosen_role req)"
proof (cases "register_try e d req")
  case (Inl err)
  then show ?thesis by (simp add: register_def)
next
  case (Inr r)
  obtain rep d' where r: "r = (rep, d')" by (cases r)
  from register_try_writes [OF Inr [unfolded r]] Inr r show ?thesis
    by (auto simp: register_def)
qed

lemma register_succeeds:
  assumes "User_findOne_email e d (field (body req) ''email'') = Inr None"
    and "passwordRegex_test e (field (body req) ''password'')"
    and "user_values e (field (body req) ''name'') (field (body req) ''email'')
             (field (body req) ''password'') = Inr (n, m, h)"
    and "online d" and "find (\<lambda>u. u_email u = m) (users d) = None"
  shows "snd (register e d req)
          = d\<lparr> users := users d @ [\<lparr> u_id = next_id (user_seq d) (map u_id (users d)),
                 u_name = n, u_email = m,
                 u_password = h, u_role = chosen_role req, u_active = True,
                 u_createdAt = clock_ms e \<rparr>],
               user_seq := next_id (user_seq d) (map u_id (users d)) \<rparr>
        \<and> reply_status (fst (register e d req)) = 201"
proof -
  have "User_create e d (field (body req) ''name'') (field (body req) ''email'')
          (field (body req) ''password'') (chosen_role req)
        = Inr (\<lparr> u_id = next_id (user_seq d) (map u_id (users d)), u_name = n, u_email = m,
                 u_password = h, u_role = chosen_role req, u_active = True,
                 u_createdAt = clock_ms e \<rparr>,
               d\<lparr> users := users d @ [\<lparr> u_id = next_id (user_seq d) (map u_id (users d)),
                 u_name = n, u_email = m,
                 u_password = h, u_role = chosen_role req, u_active = True,
                 u_createdAt = clock_ms e \<rparr>],
               user_seq := next_id (user_seq d) (map u_id (users d)) \<rparr>)"
    using assms(3,4,5) by (simp add: User_create_def Let_def)
  with assms(1,2) show ?thesis
    by (simp add: register_def register_try_def Let_def reply_status_def)
qed

text \<open>
  Claim C9: whatever registration persists is one new user whose role is \<open>admin\<close>
  exactly when the body's \<open>role\<close> field is the string \<open>admin\<close>, and \<open>user\<close> otherwise;
  the handler reads neither the Authorization header nor an attached identity; and a
  request that passes the checks does persist that user: a client with no credentials
  creates an administrator by sending \<open>role: 'admin'\<close>.
\<close>

theorem register_role:
  "(snd (register e d req) = d
      \<or> (\<exists>u. snd (register e d req) = d\<lparr> users := users d @ [u], user_seq := u_id u \<rparr>
            \<and> reply_status (fst (register e d req)) = 201
            \<and> u_role u = chosen_role req
            \<and> (u_role u = ''admin'' \<longleftrightarrow> field (body req) ''role'' = JStr ''admin'')))
   \<and> register e d (req\<lparr> authorization := a, user := w \<rparr>) = register e d req
   \<and> (User_findOne_email e d (field (body req) ''email'') = Inr None
        \<and> passwordRegex_test e (field (body req) ''password'')
        \<and> user_values e (field (body req) ''name'') (field (body req) ''email'')
             (field (body req) ''password'') = Inr (n, m, h)
        \<and> online d \<and> find (\<lambda>u. u_email u = m) (users d) = None \<longrightarrow>
        snd (register e d req)
          = d\<lparr> users := users d @ [\<lparr> u_id = next_id (user_seq d) (map u_id (users d)),
                 u_name = n, u_email = m,
                 u_password = h, u_role = chosen_role req, u_active = True,
                 u_createdAt = clock_ms e \<rparr>],
               user_seq := next_id (user_seq d) (map u_id (users d)) \<rparr>
        \<and> reply_status (fst (register e d req)) = 201)"
proof (intro conjI impI)
  show "snd (register e d req) = d
      \<or> (\<exists>u. snd (register e d req) = d\<lparr> users := users d @ [u], user_seq := u_id u \<rparr>
            \<and> reply_status (fst (register e d req)) = 201
            \<and> u_role u = chosen_role req
            \<and> (u_role u = ''admin'' \<longleftrightarrow> field (body req) ''role'' = JStr ''admin''))"
    using register_writes [of e d req] by auto
  show "register e d (req\<lparr> authorization := a, user := w \<rparr>) = register e d req"
    by (simp add: register_def register_try_def)
next
  assume "User_findOne_email e d (field (body req) ''email'') = Inr None
        \<and> passwordRegex_test e (field (body req) ''password'')
        \<and> user_values e (field (body req) ''name'') (field (body req) ''email'')
             (field (body req) ''password'') = Inr (n, m, h)
        \<and> online d \<and> find (\<lambda>u. u_email u = m) (users d) = None"
  then have s: "snd (register e d req)
          = d\<lparr> users := users d @ [\<lparr> u_id = next_id (user_seq d) (map u_id (users d)),
                 u_name = n, u_email = m,
                 u_password = h, u_role = chosen_role req, u_active = True,
                 u_createdAt = clock_ms e \<rparr>],
               user_seq := next_id (user_seq d) (map u_id (users d)) \<rparr>
        \<and> reply_status (fst (register e d req)) = 201"
    using register_succeeds by blast
  from s show "snd (register e d req)
          = d\<lparr> users := users d @ [\<lparr> u_id = next_id (user_seq d) (map u_id (users d)),
                 u_name = n, u_email = m,
                 u_password = h, u_role = chosen_role req, u_active = True,
                 u_createdAt = clock_ms e \<rparr>],
               user_seq := next_id (user_seq d) (map u_id (users d)) \<rparr>" by simp
  from s show "reply_status (fst (register e d req)) = 201" by simp
qed


theorem register_role_witness:
  "authorization signup = None \<and> user signup = None
   \<and> field (body signup) ''role'' = JStr ''admin''
   \<and> snd (register example_env example_db signup)
      = example_db\<lparr> users := [alice, bob, carol,
           \<lparr> u_id = 4, u_name = ''Dave'', u_email = ''dave@example.com'',
             u_password = ''hash of Passw0rdX'', u_role = ''admin'', u_active = True,
             u_createdAt = 1000 \<rparr>], user_seq := 4 \<rparr>
   \<and> reply_status (fst (register example_env example_db signup)) = 201"
  using register_role [where e = example_env and d = example_db and req = signup
      and n = "''Dave''" and m = "''dave@example.com''" and h = "''hash of Passw0rdX''"]
  by (simp add: signup_def fixtures field_def User_findOne_email_def where_text_def
        passwordRegex_test_def is_lower_def is_upper_def is_digit_def next_id_def)


end
